theory Spec2Isabelle
  imports Main "HOL-Library.Word"
begin

unbundle bit_operations_syntax

text \<open>
  The HTTP server of http/httpd.hh: the URL decoder and the query-string parser, the
  reply policy of a connection (\<open>generate_reply\<close>, \<open>upgrade_websocket\<close>,
  \<open>start_response\<close>, the join of \<open>process()\<close>) and the server's bookkeeping of accepts
  and connections (\<open>do_accepts\<close>, \<open>stop\<close>, \<open>maybe_idle\<close>, the connection's constructor
  and destructor). Functions take the objects they change and return them changed; a null
  pointer that is dereferenced is the error \<open>Null_dereference\<close>.
\<close>

section \<open>Strings\<close>

text \<open>
  \<open>sstring\<close> and \<open>string_view\<close> are byte strings: \<open>string\<close> (a list of 8-bit
  \<open>char\<close>s). \<open>find\<close> returns a position or the sentinel \<open>npos\<close>; the sentinel is
  \<open>None\<close> here. \<open>s.find(c, pos)\<close> is the index of the first \<open>c\<close> at or after \<open>pos\<close>.
\<close>

definition find_from :: "string \<Rightarrow> char \<Rightarrow> nat \<Rightarrow> nat option" where
  "find_from s c pos =
     (if c \<in> set (drop pos s) then Some (pos + length (takeWhile (\<lambda>x. x \<noteq> c) (drop pos s)))
      else None)"

definition find_char :: "string \<Rightarrow> char \<Rightarrow> nat option" where
  "find_char s c = find_from s c 0"

text \<open>
  \<open>s.substr(pos, n)\<close> and \<open>s.substr(pos)\<close>. Both raise \<open>out_of_range\<close> when
  \<open>pos > s.size()\<close>; every call below has \<open>pos \<le> s.size()\<close>.
\<close>

definition substr :: "string \<Rightarrow> nat \<Rightarrow> nat \<Rightarrow> string" where
  "substr s pos n = take n (drop pos s)"

definition substr_from :: "string \<Rightarrow> nat \<Rightarrow> string" where
  "substr_from s pos = drop pos s"

text \<open>\<open>s.find(pat)\<close> for a string \<open>pat\<close>: the first position where \<open>pat\<close> occurs.\<close>

fun find_str :: "string \<Rightarrow> string \<Rightarrow> nat option" where
  "find_str [] pat = (if pat = [] then Some 0 else None)"
| "find_str (x # xs) pat =
     (if take (length pat) (x # xs) = pat then Some 0 else map_option Suc (find_str xs pat))"

text \<open>
  \<open>sstring::find\<close> returns a \<open>size_t\<close>: the position, or \<open>sstring::npos\<close>, the largest
  value of the string's 32-bit size type. In \<open>set_query_param\<close> the result is compared
  with \<open>sstring::npos\<close> itself, and the sentinel is \<open>None\<close> as above. In
  \<open>generate_reply\<close> it is compared with \<open>std::string::npos\<close>, the largest \<open>size_t\<close>;
  there the result and the two sentinels are numbers.
\<close>

definition sstring_npos :: nat where
  "sstring_npos = 2 ^ 32 - 1"

definition std_string_npos :: nat where
  "std_string_npos = 2 ^ 64 - 1"

definition sstring_find :: "string \<Rightarrow> string \<Rightarrow> nat" where
  "sstring_find s pat = (case find_str s pat of Some pos \<Rightarrow> pos | None \<Rightarrow> sstring_npos)"

text \<open>
  \<open>boost::iequals\<close> compares two character ranges after \<open>std::toupper\<close> in the
  classic locale. Its first argument in \<open>generate_reply\<close> is \<open>upgrade->second.begin()\<close>,
  a \<open>char*\<close>, which is read as a C string: up to the first NUL byte.
\<close>

definition to_upper :: "char \<Rightarrow> char" where
  "to_upper c =
     (let n = (of_char c :: nat) in
      if of_char (CHR ''a'') \<le> n \<and> n \<le> of_char (CHR ''z'') then char_of (n - 32) else c)"

definition iequals :: "string \<Rightarrow> string \<Rightarrow> bool" where
  "iequals a b = (map to_upper a = map to_upper b)"

definition c_str :: "string \<Rightarrow> string" where
  "c_str s = takeWhile (\<lambda>x. x \<noteq> CHR 0x00) s"

text \<open>\<open>to_sstring\<close> of a \<open>size_t\<close>: its decimal digits.\<close>

function to_sstring :: "nat \<Rightarrow> string" where
  "to_sstring n =
     (if n < 10 then [char_of (of_char (CHR ''0'') + n)]
      else to_sstring (n div 10) @ [char_of (of_char (CHR ''0'') + n mod 10)])"
  by pat_completeness auto
termination
  by (relation "measure id") auto

declare to_sstring.simps [simp del]

definition crlf :: string where
  "crlf = [CHR 0x0D, CHR 0x0A]"

section \<open>Requests\<close>

text \<open>
  Modelled from the spec: the request class (http/request.hh) is not part of the sources
  at hand. A request has a method, the raw URL, the version string (\<open>1.0\<close>, \<open>1.1\<close>), a
  header table and the decoded query parameters; the connection code reads and writes them
  as \<open>_method\<close>, \<open>_url\<close>, \<open>_version\<close>, \<open>_headers\<close> and \<open>query_parameters\<close>. The two
  tables are given by their lookup: \<open>find(k)\<close> is the value at \<open>k\<close>, \<open>t[k] = v\<close> the
  update at \<open>k\<close>. Field names carry the prefix \<open>req_\<close> in place of the leading
  underscore.
\<close>

record request =
  req_method :: string
  req_url :: string
  req_version :: string
  req_headers :: "string \<rightharpoonup> string"
  req_query_parameters :: "string \<rightharpoonup> string"

section \<open>URL decoding\<close>

text \<open>
  The value of a \<open>char\<close> promoted to \<open>int\<close> (\<open>char\<close> is signed on the x86-64 target).
\<close>

definition char_val :: "char \<Rightarrow> int" where
  "char_val c = (if (of_char c :: int) < 128 then of_char c else of_char c - 256)"

definition hex_to_byte :: "char \<Rightarrow> int" where
  "hex_to_byte c =
     (if char_val (CHR ''a'') \<le> char_val c \<and> char_val c \<le> char_val (CHR ''z'')
      then char_val c - char_val (CHR ''a'') + 10
      else if char_val (CHR ''A'') \<le> char_val c \<and> char_val c \<le> char_val (CHR ''Z'')
      then char_val c - char_val (CHR ''A'') + 10
      else char_val c - char_val (CHR ''0''))"

text \<open>\<open>static_cast<char>\<close> keeps the low eight bits: \<open>char_of\<close>.\<close>

definition hexstr_to_char :: "string \<Rightarrow> nat \<Rightarrow> char" where
  "hexstr_to_char s from = char_of (hex_to_byte (s ! from) * 16 + hex_to_byte (s ! (from + 1)))"

text \<open>
  The loop of \<open>url_decode\<close>, with the index \<open>i\<close> and the bytes written to \<open>buff\<close> so
  far. \<open>None\<close> is the \<open>return false\<close>; \<open>Some out\<close> is \<open>true\<close> with the output string.
\<close>

function url_decode_loop :: "string \<Rightarrow> nat \<Rightarrow> string \<Rightarrow> string option" where
  "url_decode_loop s i buff =
     (if i < length s then
        (if s ! i = CHR ''%'' then
           (if i + 3 \<le> length s
            then url_decode_loop s (i + 2 + 1) (buff @ [hexstr_to_char s (i + 1)])
            else None)
         else if s ! i = CHR ''+'' then url_decode_loop s (i + 1) (buff @ [CHR '' ''])
         else url_decode_loop s (i + 1) (buff @ [s ! i]))
      else Some buff)"
  by pat_completeness auto
termination
  by (relation "measure (\<lambda>(s, i, buff). length s - i)") auto

declare url_decode_loop.simps [simp del]

definition url_decode :: "string \<Rightarrow> string option" where
  "url_decode s = url_decode_loop s 0 []"

text \<open>
  \<open>add_param\<close>. \<open>npos\<close> is the largest \<open>size_t\<close>, so \<open>split >= param.length() - 1\<close>
  holds whenever no \<open>=\<close> is found, also for the empty token, where \<open>length() - 1\<close>
  wraps round to that same value; a position that is found is below the length, so for
  it the test is the plain comparison.
\<close>

definition add_param :: "request \<Rightarrow> string \<Rightarrow> request" where
  "add_param req param =
     (case find_char param (CHR ''='') of
        None \<Rightarrow>
          (case url_decode param of
             Some key \<Rightarrow> req\<lparr>req_query_parameters := (req_query_parameters req)(key \<mapsto> '''')\<rparr>
           | None \<Rightarrow> req)
      | Some split \<Rightarrow>
          if split \<ge> length param - 1 then
            (case url_decode (substr param 0 split) of
               Some key \<Rightarrow> req\<lparr>req_query_parameters := (req_query_parameters req)(key \<mapsto> '''')\<rparr>
             | None \<Rightarrow> req)
          else
            (case url_decode (substr param 0 split) of
               None \<Rightarrow> req
             | Some key \<Rightarrow>
                 (case url_decode (substr_from param (split + 1)) of
                    None \<Rightarrow> req
                  | Some val \<Rightarrow>
                      req\<lparr>req_query_parameters := (req_query_parameters req)(key \<mapsto> val)\<rparr>)))"

text \<open>The \<open>while\<close> loop of \<open>set_query_param\<close> and its final \<open>add_param\<close>.\<close>

function set_query_param_loop :: "string \<Rightarrow> nat \<Rightarrow> request \<Rightarrow> request" where
  "set_query_param_loop url cur req =
     (case find_from url (CHR ''&'') cur of
        Some end_param \<Rightarrow>
          set_query_param_loop url (end_param + 1)
            (add_param req (substr url cur (end_param - cur)))
      | None \<Rightarrow> add_param req (substr_from url cur))"
  by pat_completeness auto
termination
proof (relation "measure (\<lambda>(url, cur, req). length url - cur)", goal_cases)
  case 1
  show ?case by simp
next
  case (2 url cur req end_param)
  have less: "length (takeWhile (\<lambda>x. x \<noteq> c) d) < length d" if "c \<in> set d"
    for c :: char and d
    using that by (induction d) auto
  from 2 have mem: "CHR ''&'' \<in> set (drop cur url)"
    and e: "end_param = cur + length (takeWhile (\<lambda>x. x \<noteq> CHR ''&'') (drop cur url))"
    by (auto simp: find_from_def split: if_splits)
  from less[OF mem] e show ?case by simp
qed

declare set_query_param_loop.simps [simp del]

text \<open>
  \<open>set_query_param\<close> returns the URL without its query string and fills
  \<open>req.query_parameters\<close>: the pair of the returned string and the request afterwards.
\<close>

definition set_query_param :: "request \<Rightarrow> string \<times> request" where
  "set_query_param req =
     (case find_char (req_url req) (CHR ''?'') of
        None \<Rightarrow> (req_url req, req)
      | Some pos \<Rightarrow> (substr (req_url req) 0 pos, set_query_param_loop (req_url req) (pos + 1) req))"


section \<open>Replies\<close>

text \<open>
  Modelled from the spec: the reply class (http/reply.hh) is not part of the sources at
  hand. A reply has a status code, a version copied from the request, a header table, a
  body, and the response line that \<open>done()\<close> materialises from version and status
  (\<open>HTTP/1.1 200 OK\<close>). The status codes are the five the interface names.
\<close>

datatype status_type =
  switching_protocols | ok | bad_request | not_found | internal_server_error

record reply =
  rep_status :: status_type
  rep_version :: string
  rep_headers :: "string \<rightharpoonup> string"
  rep_content :: string
  rep_response_line :: string

definition reply_new :: reply where
  "reply_new =
     \<lparr>rep_status = ok, rep_version = '''', rep_headers = Map.empty, rep_content = '''',
      rep_response_line = ''''\<rparr>"

definition set_version :: "reply \<Rightarrow> string \<Rightarrow> reply" where
  "set_version rep v = rep\<lparr>rep_version := v\<rparr>"

definition set_status :: "reply \<Rightarrow> status_type \<Rightarrow> reply" where
  "set_status rep st = rep\<lparr>rep_status := st\<rparr>"

fun status_string :: "status_type \<Rightarrow> string" where
  "status_string switching_protocols = ''101 Switching Protocols''"
| "status_string ok = ''200 OK''"
| "status_string bad_request = ''400 Bad Request''"
| "status_string not_found = ''404 Not Found''"
| "status_string internal_server_error = ''500 Internal Server Error''"

definition response_line :: "reply \<Rightarrow> string" where
  "response_line rep = ''HTTP/'' @ rep_version rep @ '' '' @ status_string (rep_status rep) @ crlf"

definition rep_done :: "reply \<Rightarrow> reply" where
  "rep_done rep = rep\<lparr>rep_response_line := response_line rep\<rparr>"

section \<open>The WebSocket accept key\<close>

text \<open>
  Modelled from the spec: \<open>generate_websocket_key\<close> (http/websocket.hh) is not part of
  the sources at hand. The accept key is the base64 encoding of the SHA-1 digest of the
  client's key followed by the fixed GUID \<open>258EAFA5-E914-47DA-95CA-C5AB0DC85B11\<close>.
  SHA-1 (FIPS 180) is written out on 32-bit values held as natural numbers, with the
  wrap-around of the additions and rotations written out, and bytes as numbers below 256;
  base64 has the standard alphabet and \<open>=\<close> padding.
\<close>

definition add32 :: "nat \<Rightarrow> nat \<Rightarrow> nat" where
  "add32 a b = (a + b) mod 2 ^ 32"

definition rotl32 :: "nat \<Rightarrow> nat \<Rightarrow> nat" where
  "rotl32 n x = (x * 2 ^ n) mod 2 ^ 32 + x div 2 ^ (32 - n)"

definition not32 :: "nat \<Rightarrow> nat" where
  "not32 x = 2 ^ 32 - 1 - x"

definition sha1_pad :: "string \<Rightarrow> nat list" where
  "sha1_pad msg =
     map of_char msg @ [128] @ replicate ((119 - length msg mod 64) mod 64) 0 @
     map (\<lambda>i. (8 * length msg) div 2 ^ (8 * (7 - i)) mod 256) [0..<8]"

fun be_words :: "nat list \<Rightarrow> nat list" where
  "be_words (a # b # c # d # rest) = (((a * 256 + b) * 256 + c) * 256 + d) # be_words rest"
| "be_words _ = []"

fun sha1_schedule :: "nat \<Rightarrow> nat list \<Rightarrow> nat list" where
  "sha1_schedule 0 w = w"
| "sha1_schedule (Suc n) w =
     sha1_schedule n
       (w @ [rotl32 1 (w ! (length w - 3) XOR w ! (length w - 8) XOR
                       w ! (length w - 14) XOR w ! (length w - 16))])"

definition sha1_f :: "nat \<Rightarrow> nat \<Rightarrow> nat \<Rightarrow> nat \<Rightarrow> nat" where
  "sha1_f t b c d =
     (if t < 20 then (b AND c) OR (not32 b AND d)
      else if t < 40 then b XOR c XOR d
      else if t < 60 then (b AND c) OR (b AND d) OR (c AND d)
      else b XOR c XOR d)"

definition sha1_k :: "nat \<Rightarrow> nat" where
  "sha1_k t =
     (if t < 20 then 0x5A827999 else if t < 40 then 0x6ED9EBA1
      else if t < 60 then 0x8F1BBCDC else 0xCA62C1D6)"

type_synonym sha1_state = "nat \<times> nat \<times> nat \<times> nat \<times> nat"

fun sha1_round :: "nat list \<Rightarrow> nat \<Rightarrow> sha1_state \<Rightarrow> sha1_state" where
  "sha1_round w t (a, b, c, d, e) =
     (add32 (add32 (add32 (add32 (rotl32 5 a) (sha1_f t b c d)) e) (sha1_k t)) (w ! t),
      a, rotl32 30 b, c, d)"

fun sha1_add :: "sha1_state \<Rightarrow> sha1_state \<Rightarrow> sha1_state" where
  "sha1_add (h0, h1, h2, h3, h4) (a, b, c, d, e) =
     (add32 h0 a, add32 h1 b, add32 h2 c, add32 h3 d, add32 h4 e)"

definition sha1_block :: "sha1_state \<Rightarrow> nat list \<Rightarrow> sha1_state" where
  "sha1_block h blk = sha1_add h (fold (sha1_round (sha1_schedule 64 blk)) [0..<80] h)"

fun sha1_blocks :: "nat \<Rightarrow> sha1_state \<Rightarrow> nat list \<Rightarrow> sha1_state" where
  "sha1_blocks 0 h ws = h"
| "sha1_blocks (Suc n) h ws = sha1_blocks n (sha1_block h (take 16 ws)) (drop 16 ws)"

definition word_bytes :: "nat \<Rightarrow> nat list" where
  "word_bytes x = [x div 2 ^ 24, x div 2 ^ 16 mod 256, x div 2 ^ 8 mod 256, x mod 256]"

fun sha1_digest :: "sha1_state \<Rightarrow> nat list" where
  "sha1_digest (h0, h1, h2, h3, h4) = concat (map word_bytes [h0, h1, h2, h3, h4])"

definition sha1 :: "string \<Rightarrow> nat list" where
  "sha1 msg =
     (let ws = be_words (sha1_pad msg)
      in sha1_digest
           (sha1_blocks (length ws div 16)
              (0x67452301, 0xEFCDAB89, 0x98BADCFE, 0x10325476, 0xC3D2E1F0) ws))"

definition base64_alphabet :: string where
  "base64_alphabet = ''ABCDEFGHIJKLMNOPQRSTUVWXYZabcdefghijklmnopqrstuvwxyz0123456789+/''"

definition b64 :: "nat \<Rightarrow> char" where
  "b64 n = base64_alphabet ! (n mod 64)"

fun base64_encode :: "nat list \<Rightarrow> string" where
  "base64_encode (a # b # c # rest) =
     [b64 (a div 4), b64 ((a mod 4) * 16 + b div 16), b64 ((b mod 16) * 4 + c div 64), b64 c]
     @ base64_encode rest"
| "base64_encode [a, b] =
     [b64 (a div 4), b64 ((a mod 4) * 16 + b div 16), b64 ((b mod 16) * 4), CHR ''='']"
| "base64_encode [a] = [b64 (a div 4), b64 ((a mod 4) * 16), CHR ''='', CHR ''='']"
| "base64_encode [] = []"

definition websocket_magic :: string where
  "websocket_magic = ''258EAFA5-E914-47DA-95CA-C5AB0DC85B11''"

definition generate_websocket_key :: "string \<Rightarrow> string" where
  "generate_websocket_key key = base64_encode (sha1 (key @ websocket_magic))"

section \<open>The route table\<close>

text \<open>
  Modelled from the spec: the route table (http/routes.hh) is not part of the sources at
  hand. The connection uses two of its operations. \<open>handle\<close> finds the handler for the
  path, runs it on the request and the prepared reply, and returns the completed reply (a
  404 or 500 reply when no route matches or the handler fails). \<open>get_ws_handler\<close> only
  looks up the WebSocket handler registered for a path; it is given the path and the
  request pointer the caller passes.
\<close>

type_synonym ws_handler = nat

record routes =
  handle :: "string \<Rightarrow> request \<Rightarrow> reply \<Rightarrow> reply"
  get_ws_handler :: "string \<Rightarrow> request option \<Rightarrow> ws_handler option"

section \<open>Connections\<close>

datatype connection_status = keep_open | close | detach

datatype fd_kind = plain_socket | websocket

text \<open>
  The members of \<open>connection\<close> that the functions below read or write, with the prefix
  \<open>conn_\<close> in place of the leading underscore. \<open>_fd\<close> is the variant's alternative
  together with the two shutdown flags of the transport; \<open>_write_buf\<close> is the sequence of
  bytes written to the output stream; a null \<open>unique_ptr\<close> is \<open>None\<close>; \<open>_replies\<close> is the
  queue's content, oldest first (a null element marks eof).
\<close>

record connection =
  conn_fd :: fd_kind
  conn_shutdown_input :: bool
  conn_shutdown_output :: bool
  conn_write_buf :: string
  conn_req :: "request option"
  conn_resp :: "reply option"
  conn_replies :: "reply option list"
  conn_done :: connection_status

text \<open>
  Modelled from the spec: the queue class (core/queue.hh) is not part of the sources at
  hand. \<open>_replies\<close> is a bounded queue of capacity 10 (\<open>_replies { 10 }\<close>); \<open>push\<close> onto a
  full queue adds nothing. \<open>read_one\<close> awaits \<open>_replies.not_full()\<close> before it calls
  \<open>generate_reply\<close>.
\<close>

definition replies_max :: nat where
  "replies_max = 10"

definition queue_push :: "reply option list \<Rightarrow> reply option \<Rightarrow> reply option list" where
  "queue_push q x = (if length q < replies_max then q @ [x] else q)"

datatype error = Null_dereference

section \<open>The server\<close>

text \<open>
  A listening socket with its accept loop: whether an \<open>accept()\<close> is in flight, whether
  \<open>abort_accept()\<close> was called, and whether the future of the \<open>do_accepts\<close> call that
  \<open>listen\<close> joined into \<open>_stopped\<close> has resolved.
\<close>

record listener =
  lst_accepting :: bool
  lst_aborted :: bool
  lst_first_settled :: bool

type_synonym conn_id = nat

text \<open>
  The members of \<open>http_server\<close>, with the prefix \<open>srv_\<close>. \<open>_connections\<close> is the intrusive
  list of the live connection objects, each with its address; \<open>_all_connections_stopped\<close>
  is whether the promise has been given its value.
\<close>

record http_server =
  srv_listeners :: "listener list"
  srv_total_connections :: "64 word"
  srv_current_connections :: "64 word"
  srv_requests_served :: "64 word"
  srv_connections_being_accepted :: "64 word"
  srv_read_errors :: "64 word"
  srv_respond_errors :: "64 word"
  srv_date :: string
  srv_stopping :: bool
  srv_all_connections_stopped :: bool
  srv_routes :: routes
  srv_connections :: "(conn_id \<times> connection) list"

definition http_server_new :: "string \<Rightarrow> routes \<Rightarrow> http_server" where
  "http_server_new date rts =
     \<lparr>srv_listeners = [], srv_total_connections = 0, srv_current_connections = 0,
      srv_requests_served = 0, srv_connections_being_accepted = 0, srv_read_errors = 0,
      srv_respond_errors = 0, srv_date = date, srv_stopping = False,
      srv_all_connections_stopped = False, srv_routes = rts, srv_connections = []\<rparr>"

definition maybe_idle :: "http_server \<Rightarrow> http_server" where
  "maybe_idle s =
     (if srv_stopping s \<and> srv_connections_being_accepted s = 0 \<and> srv_current_connections s = 0
      then s\<lparr>srv_all_connections_stopped := True\<rparr>
      else s)"

text \<open>The connection's constructor and destructor, as they act on the server.\<close>

definition connection_new :: connection where
  "connection_new =
     \<lparr>conn_fd = plain_socket, conn_shutdown_input = False, conn_shutdown_output = False,
      conn_write_buf = '''', conn_req = None, conn_resp = None, conn_replies = [],
      conn_done = keep_open\<rparr>"

definition connection_ctor :: "http_server \<Rightarrow> conn_id \<Rightarrow> http_server" where
  "connection_ctor s a =
     s\<lparr>srv_total_connections := srv_total_connections s + 1,
       srv_current_connections := srv_current_connections s + 1,
       srv_connections := srv_connections s @ [(a, connection_new)]\<rparr>"

definition connection_dtor :: "http_server \<Rightarrow> conn_id \<Rightarrow> http_server" where
  "connection_dtor s a =
     maybe_idle
       (s\<lparr>srv_current_connections := srv_current_connections s - 1,
          srv_connections := filter (\<lambda>(b, c). b \<noteq> a) (srv_connections s)\<rparr>)"

definition shutdown :: "connection \<Rightarrow> connection" where
  "shutdown c = c\<lparr>conn_shutdown_input := True, conn_shutdown_output := True\<rparr>"

definition abort_accept :: "listener \<Rightarrow> listener" where
  "abort_accept l = l\<lparr>lst_aborted := True\<rparr>"

text \<open>
  \<open>do_accepts(which)\<close> up to its suspension in \<open>accept()\<close>, and the continuation that
  runs when that accept completes: with a new connection at address \<open>a\<close> (\<open>Some a\<close>), or
  with an exception (\<open>None\<close>), which leaves the continuation at \<open>f_cs_sa.get()\<close>.
\<close>

definition do_accepts :: "nat \<Rightarrow> http_server \<Rightarrow> http_server" where
  "do_accepts which s =
     s\<lparr>srv_connections_being_accepted := srv_connections_being_accepted s + 1,
       srv_listeners := (srv_listeners s)[which := (srv_listeners s ! which)\<lparr>lst_accepting := True\<rparr>]\<rparr>"

definition accept_done :: "nat \<Rightarrow> conn_id option \<Rightarrow> http_server \<Rightarrow> http_server" where
  "accept_done which res s =
     (let s1 = s\<lparr>srv_connections_being_accepted := srv_connections_being_accepted s - 1,
                 srv_listeners := (srv_listeners s)[which :=
                   (srv_listeners s ! which)\<lparr>lst_accepting := False, lst_first_settled := True\<rparr>]\<rparr>
      in if srv_stopping s1 then maybe_idle s1
         else (case res of
                 None \<Rightarrow> s1
               | Some a \<Rightarrow> do_accepts which (connection_ctor s1 a)))"

definition listen :: "http_server \<Rightarrow> http_server" where
  "listen s =
     do_accepts (length (srv_listeners s))
       (s\<lparr>srv_listeners := srv_listeners s @
            [\<lparr>lst_accepting = False, lst_aborted = False, lst_first_settled = False\<rparr>]\<rparr>)"

definition stop :: "http_server \<Rightarrow> http_server" where
  "stop s =
     s\<lparr>srv_stopping := True,
       srv_listeners := map abort_accept (srv_listeners s),
       srv_connections := map (\<lambda>(a, c). (a, shutdown c)) (srv_connections s)\<rparr>"

text \<open>
  The future \<open>stop()\<close> returns is \<open>_stopped\<close>: the future of the promise
  \<open>_all_connections_stopped\<close>, joined by \<open>listen\<close> with the future of each listener's
  first \<open>do_accepts\<close>. It has resolved when all of them have.
\<close>

definition stopped_resolved :: "http_server \<Rightarrow> bool" where
  "stopped_resolved s =
     (srv_all_connections_stopped s \<and> list_all lst_first_settled (srv_listeners s))"

section \<open>Request handling\<close>

text \<open>
  \<open>upgrade_websocket\<close>. The result is the connection afterwards and the status the
  returned future carries. The local \<open>done\<close> and the member \<open>_done\<close> are assigned
  together, first in the refused branch and then after the branches.
\<close>

definition upgrade_websocket ::
  "http_server \<Rightarrow> connection \<Rightarrow> request \<Rightarrow> connection \<times> connection_status" where
  "upgrade_websocket srv c req0 =
     (let (url, req) = set_query_param req0;
          resp = set_version reply_new (req_version req);
          it = req_headers req ''Sec-WebSocket-Key'';
          (c1, resp1) =
            (if it \<noteq> None \<and> get_ws_handler (srv_routes srv) url (conn_req c) \<noteq> None then
               (let r1 = resp\<lparr>rep_headers := (rep_headers resp)(''Upgrade'' \<mapsto> ''websocket'')\<rparr>;
                    r2 = r1\<lparr>rep_headers := (rep_headers r1)(''Connection'' \<mapsto> ''Upgrade'')\<rparr>;
                    r3 = r2\<lparr>rep_headers := (rep_headers r2)
                           (''Sec-WebSocket-Accept'' \<mapsto> generate_websocket_key (the it))\<rparr>;
                    r4 = rep_done (set_status r3 switching_protocols)
                in (c\<lparr>conn_req := Some req\<rparr>, r4))
             else
               (c\<lparr>conn_done := close\<rparr>, set_status resp bad_request));
          resp2 = rep_done resp1;
          done = detach;
          c2 = c1\<lparr>conn_done := done\<rparr>;
          c3 = c2\<lparr>conn_replies := queue_push (conn_replies c2) (Some resp2)\<rparr>
      in (c3, done))"

text \<open>
  \<open>generate_reply\<close> from \<open>bool should_close\<close> on, reached when the request is not
  handed to \<open>upgrade_websocket\<close>, with the two flags set from the \<open>Connection\<close> header.
\<close>

definition generate_reply_rest ::
  "http_server \<Rightarrow> connection \<Rightarrow> request \<Rightarrow> bool \<Rightarrow> bool \<Rightarrow> connection \<times> connection_status"
  where
  "generate_reply_rest srv c req0 conn_keep_alive conn_close =
     (let resp = set_version reply_new (req_version req0);
          (resp1, should_close) =
            (if req_version req0 = ''1.0'' then
               ((if conn_keep_alive
                 then resp\<lparr>rep_headers := (rep_headers resp)(''Connection'' \<mapsto> ''Keep-Alive'')\<rparr>
                 else resp),
                \<not> conn_keep_alive)
             else if req_version req0 = ''1.1'' then (resp, conn_close)
             else (resp, True));
          (url, req) = set_query_param req0;
          version = req_version req;
          rep = handle (srv_routes srv) url req resp1;
          rep1 = rep_done (set_version rep version);
          c1 = c\<lparr>conn_replies := queue_push (conn_replies c) (Some rep1)\<rparr>
      in (c1, if should_close then close else keep_open))"

definition generate_reply ::
  "http_server \<Rightarrow> connection \<Rightarrow> request \<Rightarrow> connection \<times> connection_status" where
  "generate_reply srv c req =
     (case req_headers req ''Connection'' of
        None \<Rightarrow> generate_reply_rest srv c req False False
      | Some v \<Rightarrow>
          if v = ''Keep-Alive'' then generate_reply_rest srv c req True False
          else if v = ''Close'' then generate_reply_rest srv c req False True
          else if sstring_find v ''Upgrade'' \<noteq> std_string_npos then
            (case req_headers req ''Upgrade'' of
               None \<Rightarrow> generate_reply_rest srv c req False False
             | Some u \<Rightarrow>
                 if iequals (c_str u) ''websocket'' then upgrade_websocket srv c req
                 else generate_reply_rest srv c req False False)
          else generate_reply_rest srv c req False False)"

text \<open>
  \<open>read_one\<close> from the point where the parser has consumed its input: at end of input
  (\<open>Eof\<close>) or with a parsed request. The reply is generated once \<open>_replies.not_full()\<close>
  has resolved.
\<close>

datatype parse_result = Eof | Parsed request

definition read_one :: "http_server \<Rightarrow> connection \<Rightarrow> parse_result \<Rightarrow> http_server \<times> connection" where
  "read_one srv c p =
     (case p of
        Eof \<Rightarrow> (srv, c\<lparr>conn_done := close\<rparr>)
      | Parsed req \<Rightarrow>
          (let srv1 = srv\<lparr>srv_requests_served := srv_requests_served srv + 1\<rparr>;
               (c1, done) = generate_reply srv1 c req
           in (srv1, c1\<lparr>conn_done := done\<rparr>)))"

text \<open>
  \<open>start_response\<close> and \<open>write_reply_headers\<close>. The header table is a hash table; the
  order in which its entries are visited is the argument \<open>order\<close>, a list of its keys.
  \<open>write_reply_headers\<close> takes the entries from the iterator on.
\<close>

fun write_reply_headers :: "string \<Rightarrow> (string \<times> string) list \<Rightarrow> string" where
  "write_reply_headers wb [] = wb"
| "write_reply_headers wb ((k, v) # hi) = write_reply_headers (wb @ k @ '': '' @ v @ crlf) hi"

definition header_entries :: "(string \<rightharpoonup> string) \<Rightarrow> string list \<Rightarrow> (string \<times> string) list" where
  "header_entries h order = List.map_filter (\<lambda>k. map_option (Pair k) (h k)) order"

definition start_response :: "http_server \<Rightarrow> string list \<Rightarrow> connection \<Rightarrow> error + connection" where
  "start_response srv order c =
     (case conn_resp c of
        None \<Rightarrow> Inl Null_dereference
      | Some resp \<Rightarrow>
          (let r1 = resp\<lparr>rep_headers := (rep_headers resp)(''Server'' \<mapsto> ''Seastar httpd'')\<rparr>;
               r2 = r1\<lparr>rep_headers := (rep_headers r1)(''Date'' \<mapsto> srv_date srv)\<rparr>;
               r3 = r2\<lparr>rep_headers := (rep_headers r2)
                      (''Content-Length'' \<mapsto> to_sstring (length (rep_content r2)))\<rparr>;
               wb1 = conn_write_buf c @ rep_response_line r3;
               wb2 = write_reply_headers wb1 (header_entries (rep_headers r3) order);
               wb3 = wb2 @ crlf;
               wb4 = wb3 @ rep_content r3
           in Inr (c\<lparr>conn_write_buf := wb4, conn_resp := None\<rparr>)))"

text \<open>
  The continuation of \<open>process()\<close> that runs when both \<open>read()\<close> and \<open>respond()\<close> have
  resolved. When the status is \<open>detach\<close> it dereferences \<open>_req\<close>, turns the transport into
  a WebSocket and calls \<open>handle_ws\<close> with the URL and the request, which it gives away;
  the result holds that call's arguments.
\<close>

definition process_join :: "connection \<Rightarrow> error + connection \<times> (string \<times> request) option" where
  "process_join c =
     (if conn_done c = detach then
        (case conn_req c of
           None \<Rightarrow> Inl Null_dereference
         | Some r \<Rightarrow>
             (let (url, r1) = set_query_param r
              in Inr (c\<lparr>conn_fd := websocket, conn_req := None\<rparr>, Some (url, r1))))
      else Inr (c, None))"

section \<open>Runs of the server\<close>

text \<open>
  The server runs on one cooperative thread: each of its steps is one call from outside
  (\<open>listen\<close>, \<open>stop\<close>) or one continuation (an accept completes on listener \<open>which\<close>; the
  \<open>process()\<close> of the connection at an address has resolved, which deletes it).
\<close>

datatype event =
  Listen | Stop | Accept_done nat "conn_id option" | Process_done conn_id

fun exec_event :: "http_server \<Rightarrow> event \<Rightarrow> http_server" where
  "exec_event s Listen = listen s"
| "exec_event s Stop = stop s"
| "exec_event s (Accept_done which res) = accept_done which res s"
| "exec_event s (Process_done a) = connection_dtor s a"

text \<open>
  An event can happen when: the accept that completes is in flight, a new connection's
  address is not that of a live one, and the connection whose \<open>process()\<close> resolves
  is live.
\<close>

fun enabled :: "http_server \<Rightarrow> event \<Rightarrow> bool" where
  "enabled s Listen = True"
| "enabled s Stop = True"
| "enabled s (Accept_done which res) =
     (which < length (srv_listeners s) \<and> lst_accepting (srv_listeners s ! which) \<and>
      (case res of
         None \<Rightarrow> True
       | Some a \<Rightarrow> a \<notin> fst ` set (srv_connections s)))"
| "enabled s (Process_done a) = (a \<in> fst ` set (srv_connections s))"

fun exec :: "http_server \<Rightarrow> event list \<Rightarrow> http_server" where
  "exec s [] = s"
| "exec s (e # es) = exec (exec_event s e) es"

fun valid_run :: "http_server \<Rightarrow> event list \<Rightarrow> bool" where
  "valid_run s [] = True"
| "valid_run s (e # es) = (enabled s e \<and> valid_run (exec_event s e) es)"

section \<open>Notions of the specification\<close>

text \<open>The value of a hexadecimal digit of either case.\<close>

definition hex_digit_value :: "char \<Rightarrow> nat option" where
  "hex_digit_value c =
     (let n = (of_char c :: nat) in
      if of_char (CHR ''0'') \<le> n \<and> n \<le> of_char (CHR ''9'') then Some (n - of_char (CHR ''0''))
      else if of_char (CHR ''a'') \<le> n \<and> n \<le> of_char (CHR ''f'') then Some (n - of_char (CHR ''a'') + 10)
      else if of_char (CHR ''A'') \<le> n \<and> n \<le> of_char (CHR ''F'') then Some (n - of_char (CHR ''A'') + 10)
      else None)"

text \<open>
  URL decoding as the specification words it: \<open>%HH\<close> with two hexadecimal digits of
  either case is the byte with that value, \<open>+\<close> is a space, any other character is
  itself, and a \<open>%\<close> that is not followed by two hexadecimal digits is an invalid
  escape.
\<close>

fun url_decode_spec :: "string \<Rightarrow> string option" where
  "url_decode_spec [] = Some []"
| "url_decode_spec (c # s) =
     (if c = CHR ''%'' then
        (case s of
           a # b # r \<Rightarrow>
             (case hex_digit_value a of
                None \<Rightarrow> None
              | Some x \<Rightarrow>
                  (case hex_digit_value b of
                     None \<Rightarrow> None
                   | Some y \<Rightarrow> map_option ((#) (char_of (16 * x + y))) (url_decode_spec r)))
         | _ \<Rightarrow> None)
      else if c = CHR ''+'' then map_option ((#) CHR '' '') (url_decode_spec s)
      else map_option ((#) c) (url_decode_spec s))"

text \<open>The tokens of a query string: its parts between the separators.\<close>

fun split_on :: "char \<Rightarrow> string \<Rightarrow> string list" where
  "split_on c [] = [[]]"
| "split_on c (x # xs) =
     (if x = c then [] # split_on c xs else (x # hd (split_on c xs)) # tl (split_on c xs))"


text \<open>
  A request asks for the WebSocket upgrade when it has a \<open>Connection\<close> header that is
  neither \<open>Keep-Alive\<close> nor \<open>Close\<close>, and its \<open>Upgrade\<close> header is \<open>websocket\<close> in any
  case of letters. Whether the \<open>Connection\<close> header contains \<open>Upgrade\<close> plays no part:
  the test for it in \<open>generate_reply\<close> holds of every \<open>sstring\<close>.
\<close>

definition upgrade_requested :: "request \<Rightarrow> bool" where
  "upgrade_requested req =
     (case req_headers req ''Connection'' of
        None \<Rightarrow> False
      | Some v \<Rightarrow>
          v \<noteq> ''Keep-Alive'' \<and> v \<noteq> ''Close'' \<and>
          (case req_headers req ''Upgrade'' of
             None \<Rightarrow> False
           | Some u \<Rightarrow> iequals (c_str u) ''websocket''))"

text \<open>Quiescence: stopping, no accept in flight, no live connection.\<close>

definition quiescence :: "http_server \<Rightarrow> bool" where
  "quiescence s =
     (srv_stopping s \<and> srv_connections_being_accepted s = 0 \<and> srv_connections s = [])"

text \<open>
  The live connection objects after a run that starts with none: those constructed and
  not destroyed, in the order of construction. A connection is constructed when an accept
  completes with a socket and \<open>stop\<close> has not been called before.
\<close>

fun live_connections :: "bool \<Rightarrow> conn_id list \<Rightarrow> event list \<Rightarrow> conn_id list" where
  "live_connections stopping l [] = l"
| "live_connections stopping l (Listen # es) = live_connections stopping l es"
| "live_connections stopping l (Stop # es) = live_connections True l es"
| "live_connections stopping l (Accept_done which None # es) = live_connections stopping l es"
| "live_connections stopping l (Accept_done which (Some a) # es) =
     live_connections stopping (if stopping then l else l @ [a]) es"
| "live_connections stopping l (Process_done a # es) =
     live_connections stopping (removeAll a l) es"

text \<open>
  The counter agrees with the list of connections, and no address is listed twice.
\<close>

definition counted :: "http_server \<Rightarrow> bool" where
  "counted s =
     (srv_current_connections s = of_nat (length (srv_connections s)) \<and>
      distinct (map fst (srv_connections s)))"

text \<open>
  A stopping server with no listener, no accept in flight and no connection, whose promise
  has no value.
\<close>

definition idle_unresolved :: "http_server \<Rightarrow> bool" where
  "idle_unresolved s =
     (srv_stopping s \<and> srv_listeners s = [] \<and> srv_connections s = [] \<and>
      srv_connections_being_accepted s = 0 \<and> \<not> srv_all_connections_stopped s)"

section \<open>Sample inputs\<close>

text \<open>
  A \<open>GET\<close> request with the given URL, version and headers, as the parser hands it
  over; a route table that answers every request as the handler class \<open>handl\<close> of
  apps/httpd/main.cc does (body \<open>hello\<close>) and has a WebSocket handler at \<open>/\<close> and at
  \<open>/managed\<close>; a server with that table.
\<close>

definition mk_request :: "string \<Rightarrow> string \<Rightarrow> (string \<times> string) list \<Rightarrow> request" where
  "mk_request url version headers =
     \<lparr>req_method = ''GET'', req_url = url, req_version = version, req_headers = map_of headers,
      req_query_parameters = Map.empty\<rparr>"

definition sample_routes :: routes where
  "sample_routes =
     \<lparr>handle = (\<lambda>url req rep. rep_done (rep\<lparr>rep_content := ''hello''\<rparr>)),
      get_ws_handler = (\<lambda>url req. if url = ''/'' then Some 0 else if url = ''/managed'' then Some 1 else None)\<rparr>"

definition sample_server :: http_server where
  "sample_server = http_server_new ''01 Jan 2017 00:00:00 GMT'' sample_routes"

section \<open>Facts about URL decoding\<close>

lemma url_decode_loop_buff:
  "url_decode_loop s i (b @ buff) = map_option ((@) b) (url_decode_loop s i buff)"
proof (induction s i buff rule: url_decode_loop.induct)
  case (1 s i buff)
  show ?case
    by (subst url_decode_loop.simps, subst (2) url_decode_loop.simps)
       (use 1 in \<open>simp flip: append_assoc\<close>)
qed

lemma url_decode_loop_shift:
  "url_decode_loop (c # s) (Suc i) buff = url_decode_loop s i buff"
proof (induction s i buff rule: url_decode_loop.induct)
  case (1 s i buff)
  show ?case
    by (subst url_decode_loop.simps, subst (2) url_decode_loop.simps)
       (use 1 in \<open>simp add: hexstr_to_char_def\<close>)
qed

lemma url_decode_Nil: "url_decode [] = Some []"
  by (simp add: url_decode_def url_decode_loop.simps)

lemma url_decode_loop_Cons:
  "url_decode_loop (c # s) (Suc 0) [x] = map_option ((#) x) (url_decode s)"
  using url_decode_loop_buff[of s 0 "[x]" "[]"]
  by (cases "url_decode_loop s 0 []") (simp_all add: url_decode_loop_shift url_decode_def)

lemma url_decode_plus: "url_decode (CHR ''+'' # s) = map_option ((#) CHR '' '') (url_decode s)"
  unfolding url_decode_def[of "_ # _"]
  by (subst url_decode_loop.simps) (simp add: url_decode_loop_Cons)

lemma url_decode_other:
  "c \<noteq> CHR ''%'' \<Longrightarrow> c \<noteq> CHR ''+'' \<Longrightarrow> url_decode (c # s) = map_option ((#) c) (url_decode s)"
  unfolding url_decode_def[of "_ # _"]
  by (subst url_decode_loop.simps) (simp add: url_decode_loop_Cons)

lemma url_decode_percent:
  "url_decode (CHR ''%'' # a # b # s) =
     map_option ((#) (char_of (hex_to_byte a * 16 + hex_to_byte b))) (url_decode s)"
proof -
  have "url_decode_loop (CHR ''%'' # a # b # s) (Suc (Suc (Suc 0))) [x] = map_option ((#) x) (url_decode s)" for x
    using url_decode_loop_buff[of s 0 "[x]" "[]"]
    by (cases "url_decode_loop s 0 []") (simp_all add: url_decode_loop_shift url_decode_def)
  then show ?thesis
    unfolding url_decode_def[of "_ # _"]
    by (subst url_decode_loop.simps) (simp add: hexstr_to_char_def numeral_3_eq_3)
qed

lemma url_decode_percent_short:
  "length t < 2 \<Longrightarrow> url_decode (CHR ''%'' # t) = None"
  unfolding url_decode_def
  by (subst url_decode_loop.simps) simp

lemma url_decode_append_percent:
  "url_decode p = Some q \<Longrightarrow> length t < 2 \<Longrightarrow> url_decode (p @ CHR ''%'' # t) = None"
proof (induction p arbitrary: q rule: length_induct)
  case (1 p)
  show ?case
  proof (cases p)
    case Nil
    then show ?thesis using 1(3) by (simp add: url_decode_percent_short)
  next
    case (Cons c p')
    show ?thesis
    proof (cases "c = CHR ''%''")
      case False
      then show ?thesis using 1 Cons
        by (cases "c = CHR ''+''") (auto simp: url_decode_plus url_decode_other)
    next
      case True
      show ?thesis
      proof (cases p')
        case Nil
        then show ?thesis using 1(2) Cons True by (simp add: url_decode_percent_short)
      next
        case c2: (Cons a p'')
        show ?thesis
        proof (cases p'')
          case Nil
          then show ?thesis using 1(2) Cons True c2 by (simp add: url_decode_percent_short)
        next
          case c3: (Cons b p3)
          then show ?thesis using 1 Cons True c2 by (auto simp: url_decode_percent)
        qed
      qed
    qed
  qed
qed

lemma hex_to_byte_digit: "hex_digit_value c = Some v \<Longrightarrow> hex_to_byte c = int v"
proof -
  assume a: "hex_digit_value c = Some v"
  have i: "(of_char c :: int) = int (of_char c)" by (rule of_nat_of_char[symmetric])
  show ?thesis using a unfolding hex_digit_value_def hex_to_byte_def char_val_def Let_def i
    by (auto split: if_splits)
qed

lemma split_on_notin: "c \<notin> set s \<Longrightarrow> split_on c s = [s]"
  by (induction s) auto

lemma split_on_in:
  "c \<in> set s \<Longrightarrow>
   split_on c s = takeWhile (\<lambda>x. x \<noteq> c) s # split_on c (tl (dropWhile (\<lambda>x. x \<noteq> c) s))"
  by (induction s) auto

lemma find_from_None: "find_from s c pos = None \<longleftrightarrow> c \<notin> set (drop pos s)"
  by (simp add: find_from_def)

lemma find_char_notin: "c \<notin> set s \<Longrightarrow> find_char s c = None"
  by (simp add: find_char_def find_from_def)

lemma length_takeWhile_append:
  "c \<notin> set k \<Longrightarrow> length (takeWhile (\<lambda>x. x \<noteq> c) (k @ c # v)) = length k"
  by (induction k) auto

lemma find_char_append: "c \<notin> set k \<Longrightarrow> find_char (k @ c # v) c = Some (length k)"
  by (simp add: find_char_def find_from_def length_takeWhile_append)

lemma take_length_takeWhile: "take (length (takeWhile P xs)) xs = takeWhile P xs"
  by (induction xs) auto

lemma drop_Suc_length_takeWhile: "drop (Suc (length (takeWhile P xs))) xs = tl (dropWhile P xs)"
  by (induction xs) auto

lemma set_query_param_loop_fold:
  "set_query_param_loop url cur req =
     fold (\<lambda>tok r. add_param r tok) (split_on (CHR ''&'') (drop cur url)) req"
proof (induction url cur req rule: set_query_param_loop.induct)
  case (1 url cur req)
  let ?d = "drop cur url"
  let ?t = "takeWhile (\<lambda>x. x \<noteq> CHR ''&'') ?d"
  show ?case
  proof (cases "find_from url (CHR ''&'') cur")
    case None
    then have "CHR ''&'' \<notin> set ?d" by (simp add: find_from_None)
    then show ?thesis using None
      by (subst set_query_param_loop.simps) (simp add: split_on_notin substr_from_def)
  next
    case (Some e)
    then have mem: "CHR ''&'' \<in> set ?d" and e: "e = cur + length ?t"
      by (auto simp: find_from_def split: if_splits)
    have tok: "substr url cur (e - cur) = ?t"
      by (simp add: substr_def e take_length_takeWhile)
    have "drop (Suc (length ?t)) ?d = tl (dropWhile (\<lambda>x. x \<noteq> CHR ''&'') ?d)"
      by (rule drop_Suc_length_takeWhile)
    then have rest: "drop (Suc e) url = tl (dropWhile (\<lambda>x. x \<noteq> CHR ''&'') ?d)"
      by (simp add: e add.commute)
    show ?thesis
      using 1[OF Some] Some
      by (subst set_query_param_loop.simps) (simp add: split_on_in[OF mem] tok rest)
  qed
qed

lemma set_query_param_no_query:
  "CHR ''?'' \<notin> set (req_url req) \<Longrightarrow> set_query_param req = (req_url req, req)"
  by (simp add: set_query_param_def find_char_notin)

lemma set_query_param_query:
  assumes "CHR ''?'' \<in> set (req_url req)"
  shows "set_query_param req =
     (takeWhile (\<lambda>x. x \<noteq> CHR ''?'') (req_url req),
      fold (\<lambda>tok r. add_param r tok)
        (split_on (CHR ''&'') (tl (dropWhile (\<lambda>x. x \<noteq> CHR ''?'') (req_url req)))) req)"
proof -
  let ?u = "req_url req"
  let ?n = "length (takeWhile (\<lambda>x. x \<noteq> CHR ''?'') ?u)"
  have f: "find_char ?u (CHR ''?'') = Some ?n"
    using assms by (simp add: find_char_def find_from_def)
  have d: "drop (Suc ?n) ?u = tl (dropWhile (\<lambda>x. x \<noteq> CHR ''?'') ?u)"
    using drop_Suc_length_takeWhile[of "\<lambda>x. x \<noteq> CHR ''?''" ?u] by simp
  show ?thesis
    unfolding set_query_param_def f
    by (simp add: set_query_param_loop_fold d substr_def take_length_takeWhile)
qed

lemma add_param_no_eq:
  "CHR ''='' \<notin> set tok \<Longrightarrow>
   add_param req tok =
     (case url_decode tok of None \<Rightarrow> req
      | Some k \<Rightarrow> req\<lparr>req_query_parameters := (req_query_parameters req)(k \<mapsto> '''')\<rparr>)"
  by (simp add: add_param_def find_char_notin split: option.splits)

lemma add_param_eq:
  "CHR ''='' \<notin> set key \<Longrightarrow>
   add_param req (key @ CHR ''='' # val) =
     (case url_decode key of None \<Rightarrow> req
      | Some k \<Rightarrow> (case url_decode val of None \<Rightarrow> req
          | Some v \<Rightarrow> req\<lparr>req_query_parameters := (req_query_parameters req)(k \<mapsto> v)\<rparr>))"
  by (cases val)
     (simp_all add: add_param_def find_char_append substr_def substr_from_def url_decode_Nil
        split: option.splits)

lemma add_param_fields:
  "req_headers (add_param req p) = req_headers req"
  "req_version (add_param req p) = req_version req"
  "req_url (add_param req p) = req_url req"
  "req_method (add_param req p) = req_method req"
  by (simp_all add: add_param_def split: option.splits)

lemma fold_add_param_fields:
  "req_headers (fold (\<lambda>tok r. add_param r tok) ts req) = req_headers req"
  "req_version (fold (\<lambda>tok r. add_param r tok) ts req) = req_version req"
  "req_url (fold (\<lambda>tok r. add_param r tok) ts req) = req_url req"
  "req_method (fold (\<lambda>tok r. add_param r tok) ts req) = req_method req"
  by (induction ts arbitrary: req) (simp_all add: add_param_fields)

lemma set_query_param_fields:
  "req_headers (snd (set_query_param req)) = req_headers req"
  "req_version (snd (set_query_param req)) = req_version req"
  "req_url (snd (set_query_param req)) = req_url req"
  "req_method (snd (set_query_param req)) = req_method req"
  by (simp_all add: set_query_param_def set_query_param_loop_fold fold_add_param_fields
        split: option.splits)

lemma char_eq_char_of: "c = char_of n \<longleftrightarrow> take_bit 8 n = of_char c"
  using char_of_eq_iff[of n c] by auto

lemmas char_eval = char_of_eq_iff char_eq_char_of

lemma char_of_hex: "char_of (int x * 16 + int y) = char_of (16 * x + y)"
proof -
  have "int x * 16 + int y = int (16 * x + y)" by simp
  then show ?thesis by (simp only: char_of_nat)
qed

lemma url_decode_spec_refines: "url_decode_spec s = Some d \<Longrightarrow> url_decode s = Some d"
proof (induction s arbitrary: d rule: url_decode_spec.induct)
  case 1
  then show ?case by (simp add: url_decode_Nil)
next
  case (2 c s)
  show ?case
  proof (cases "c = CHR ''%''")
    case True
    with 2(4) obtain a b r x y d' where s: "s = a # b # r"
      and x: "hex_digit_value a = Some x" and y: "hex_digit_value b = Some y"
      and r: "url_decode_spec r = Some d'" and d: "d = char_of (16 * x + y) # d'"
      by (auto split: list.splits option.splits)
    from 2(1)[OF True s refl x y r] have "url_decode r = Some d'" .
    then show ?thesis
      using True s d by (simp add: url_decode_percent hex_to_byte_digit[OF x] hex_to_byte_digit[OF y]
          char_of_hex)
  next
    case False
    show ?thesis
    proof (cases "c = CHR ''+''")
      case True
      with False 2(4) obtain d' where r: "url_decode_spec s = Some d'" and d: "d = CHR '' '' # d'"
        by auto
      from 2(2)[OF False True r] show ?thesis using True d by (simp add: url_decode_plus)
    next
      case plus: False
      with False 2(4) obtain d' where r: "url_decode_spec s = Some d'" and d: "d = c # d'"
        by auto
      from 2(3)[OF False plus r] show ?thesis using False plus d by (simp add: url_decode_other)
    qed
  qed
qed

section \<open>Facts about the accept key\<close>

lemma sha1_schedule_numeral:
  "sha1_schedule (numeral n) w =
     sha1_schedule (pred_numeral n)
       (w @ [rotl32 1 (w ! (length w - 3) XOR w ! (length w - 8) XOR
                       w ! (length w - 14) XOR w ! (length w - 16))])"
  by (simp add: numeral_eq_Suc)

lemma sha1_blocks_numeral:
  "sha1_blocks (numeral n) h ws =
     sha1_blocks (pred_numeral n) (sha1_block h (take 16 ws)) (drop 16 ws)"
  by (simp add: numeral_eq_Suc)

lemma replicate_numeral_Cons: "replicate (numeral k) x = x # replicate (pred_numeral k) x"
  by (simp add: numeral_eq_Suc)

lemma upt_0_numeral: "[0..<numeral n] = 0 # [Suc 0..<numeral n]"
  by (rule upt_conv_Cons) simp

lemma upt_1_numeral: "[Suc 0..<numeral n] = (if 1 < (numeral n :: nat) then Suc 0 # [2..<numeral n] else [])"
  by (subst upt_rec) (simp add: numeral_2_eq_2)


lemma sha1_blocks_one: "sha1_blocks (Suc 0) h ws = sha1_block h (take 16 ws)"
  by simp

text \<open>
  The sample handshake of RFC 6455, which is the specification's upgrade scenario: the key
  \<open>dGhlIHNhbXBsZSBub25jZQ==\<close> gives \<open>s3pPLMBiTxaQ9kYGzzhZRbK+xOo=\<close>.
\<close>

lemma websocket_key_sample:
  "generate_websocket_key ''dGhlIHNhbXBsZSBub25jZQ=='' = ''s3pPLMBiTxaQ9kYGzzhZRbK+xOo=''"
  by (simp add: generate_websocket_key_def websocket_magic_def sha1_def sha1_pad_def
        sha1_blocks_numeral sha1_block_def sha1_schedule_numeral rotl32_def sha1_f_def
        sha1_k_def add32_def not32_def word_bytes_def b64_def base64_alphabet_def Let_def
        replicate_numeral_Cons upt_0_numeral upt_1_numeral)

section \<open>Facts about request handling\<close>

lemma queue_push_room: "length q < replies_max \<Longrightarrow> queue_push q x = q @ [x]"
  by (simp add: queue_push_def)



lemma find_str_le: "find_str s pat = Some pos \<Longrightarrow> pos \<le> length s"
  by (induction s arbitrary: pos) (auto split: if_splits)

lemma sstring_find_neq_std_npos:
  assumes "length s < 2 ^ 32"
  shows "sstring_find s pat \<noteq> std_string_npos"
proof (cases "find_str s pat")
  case None
  then show ?thesis by (simp add: sstring_find_def sstring_npos_def std_string_npos_def)
next
  case (Some pos)
  then have "pos < 2 ^ 32" using find_str_le[OF Some] assms by simp
  then show ?thesis using Some by (simp add: sstring_find_def std_string_npos_def)
qed

lemma generate_reply_upgrade:
  assumes "upgrade_requested req"
    and "\<And>v. req_headers req ''Connection'' = Some v \<Longrightarrow> length v < 2 ^ 32"
  shows "generate_reply srv c req = upgrade_websocket srv c req"
proof -
  from assms(1) obtain v u where v: "req_headers req ''Connection'' = Some v"
    and n: "v \<noteq> ''Keep-Alive''" "v \<noteq> ''Close''"
    and u: "req_headers req ''Upgrade'' = Some u" "iequals (c_str u) ''websocket''"
    by (auto simp: upgrade_requested_def split: option.splits)
  from assms(2)[OF v] have "sstring_find v ''Upgrade'' \<noteq> std_string_npos"
    by (rule sstring_find_neq_std_npos)
  with v n u show ?thesis by (simp add: generate_reply_def)
qed

lemma generate_reply_no_upgrade:
  "\<not> upgrade_requested req \<Longrightarrow>
   generate_reply srv c req =
     generate_reply_rest srv c req (req_headers req ''Connection'' = Some ''Keep-Alive'')
       (req_headers req ''Connection'' = Some ''Close'')"
  by (auto simp: upgrade_requested_def generate_reply_def split: option.splits)

lemma takeWhile_notin: "c \<notin> set s \<Longrightarrow> takeWhile (\<lambda>x. x \<noteq> c) s = s"
  by (induction s) auto

lemma fst_set_query_param:
  "fst (set_query_param req) = takeWhile (\<lambda>x. x \<noteq> CHR ''?'') (req_url req)"
  by (cases "CHR ''?'' \<in> set (req_url req)")
     (simp_all add: set_query_param_query set_query_param_no_query takeWhile_notin)

lemma upgrade_websocket_accepted:
  assumes "req_headers req ''Sec-WebSocket-Key'' = Some key"
    and "get_ws_handler (srv_routes srv) (fst (set_query_param req)) (conn_req c) \<noteq> None"
  shows "upgrade_websocket srv c req =
     (c\<lparr>conn_req := Some (snd (set_query_param req)), conn_done := detach,
        conn_replies := queue_push (conn_replies c)
          (Some \<lparr>rep_status = switching_protocols, rep_version = req_version req,
                 rep_headers = [''Upgrade'' \<mapsto> ''websocket'', ''Connection'' \<mapsto> ''Upgrade'',
                    ''Sec-WebSocket-Accept'' \<mapsto> generate_websocket_key key],
                 rep_content = '''',
                 rep_response_line =
                   ''HTTP/'' @ req_version req @ '' 101 Switching Protocols'' @ crlf\<rparr>)\<rparr>,
      detach)"
  using assms set_query_param_fields(1,2)[of req]
  by (cases "set_query_param req")
     (simp add: upgrade_websocket_def Let_def reply_new_def set_version_def set_status_def
        rep_done_def response_line_def)

lemma upgrade_websocket_refused:
  assumes "req_headers req ''Sec-WebSocket-Key'' = None \<or>
           get_ws_handler (srv_routes srv) (fst (set_query_param req)) (conn_req c) = None"
  shows "upgrade_websocket srv c req =
     (c\<lparr>conn_done := detach,
        conn_replies := queue_push (conn_replies c)
          (Some \<lparr>rep_status = bad_request, rep_version = req_version req,
                 rep_headers = Map.empty, rep_content = '''',
                 rep_response_line = ''HTTP/'' @ req_version req @ '' 400 Bad Request'' @ crlf\<rparr>)\<rparr>,
      detach)"
  using assms set_query_param_fields(1,2)[of req]
  by (cases "set_query_param req")
     (auto simp: upgrade_websocket_def Let_def reply_new_def set_version_def set_status_def
        rep_done_def response_line_def)

lemma generate_reply_rest_keep_alive_1_0:
  assumes "req_version req = ''1.0''"
  shows "generate_reply_rest srv c req True cl =
     (c\<lparr>conn_replies := queue_push (conn_replies c)
          (Some (rep_done (set_version
             (handle (srv_routes srv) (fst (set_query_param req)) (snd (set_query_param req))
                \<lparr>rep_status = ok, rep_version = ''1.0'',
                 rep_headers = [''Connection'' \<mapsto> ''Keep-Alive''], rep_content = '''',
                 rep_response_line = ''''\<rparr>)
             ''1.0'')))\<rparr>,
      keep_open)"
  using assms set_query_param_fields(2)[of req]
  by (cases "set_query_param req")
     (simp add: generate_reply_rest_def Let_def reply_new_def set_version_def)

lemma write_reply_headers_concat:
  "write_reply_headers wb es = wb @ concat (map (\<lambda>(k, v). k @ '': '' @ v @ crlf) es)"
  by (induction es arbitrary: wb) auto

text \<open>
  On a connection that holds no request, every upgrade request that is refused leaves the
  status \<open>detach\<close> with \<open>_req\<close> null, and the join continuation of \<open>process()\<close>
  dereferences it.
\<close>

lemma refused_upgrade_null_request:
  assumes "upgrade_requested req"
    and "\<And>v. req_headers req ''Connection'' = Some v \<Longrightarrow> length v < 2 ^ 32"
    and "req_headers req ''Sec-WebSocket-Key'' = None \<or>
         get_ws_handler (srv_routes srv) (fst (set_query_param req)) (conn_req c) = None"
    and "conn_req c = None"
  shows "conn_done (snd (read_one srv c (Parsed req))) = detach"
    and "conn_req (snd (read_one srv c (Parsed req))) = None"
    and "process_join (snd (read_one srv c (Parsed req))) = Inl Null_dereference"
proof -
  let ?srv = "srv\<lparr>srv_requests_served := srv_requests_served srv + 1\<rparr>"
  have r: "req_headers req ''Sec-WebSocket-Key'' = None \<or>
         get_ws_handler (srv_routes ?srv) (fst (set_query_param req)) (conn_req c) = None"
    using assms(3) by simp
  show "conn_done (snd (read_one srv c (Parsed req))) = detach"
    and "conn_req (snd (read_one srv c (Parsed req))) = None"
    and "process_join (snd (read_one srv c (Parsed req))) = Inl Null_dereference"
    using assms(4)
    by (simp_all add: read_one_def Let_def generate_reply_upgrade[OF assms(1,2)]
          upgrade_websocket_refused[OF r] process_join_def)
qed

section \<open>Facts about runs of the server\<close>

lemma maybe_idle_fields:
  "srv_current_connections (maybe_idle s) = srv_current_connections s"
  "srv_connections (maybe_idle s) = srv_connections s"
  "srv_stopping (maybe_idle s) = srv_stopping s"
  by (simp_all add: maybe_idle_def)

lemma map_fst_filter_neq:
  "map fst (filter (\<lambda>(b, c). b \<noteq> a) xs) = removeAll a (map fst xs)"
  by (induction xs) auto

lemma length_removeAll_distinct:
  "distinct xs \<Longrightarrow> a \<in> set xs \<Longrightarrow> Suc (length (removeAll a xs)) = length xs"
  by (induction xs) auto

lemma connection_ctor_fields:
  "srv_current_connections (connection_ctor s a) = srv_current_connections s + 1"
  "map fst (srv_connections (connection_ctor s a)) = map fst (srv_connections s) @ [a]"
  "srv_stopping (connection_ctor s a) = srv_stopping s"
  by (simp_all add: connection_ctor_def)

lemma connection_dtor_fields:
  "srv_current_connections (connection_dtor s a) = srv_current_connections s - 1"
  "map fst (srv_connections (connection_dtor s a)) = removeAll a (map fst (srv_connections s))"
  "srv_stopping (connection_dtor s a) = srv_stopping s"
  by (simp_all add: connection_dtor_def maybe_idle_fields map_fst_filter_neq)

lemma do_accepts_fields:
  "srv_current_connections (do_accepts w s) = srv_current_connections s"
  "srv_connections (do_accepts w s) = srv_connections s"
  "srv_stopping (do_accepts w s) = srv_stopping s"
  by (simp_all add: do_accepts_def)

lemma counted_length:
  "counted s \<longleftrightarrow>
     srv_current_connections s = of_nat (length (map fst (srv_connections s))) \<and>
     distinct (map fst (srv_connections s))"
  by (simp add: counted_def)

lemma exec_event_live:
  assumes "counted s" and "enabled s e"
  shows "counted (exec_event s e)"
    and "map fst (srv_connections (exec_event s e)) =
           live_connections (srv_stopping s) (map fst (srv_connections s)) [e]"
    and "srv_stopping (exec_event s e) = (srv_stopping s \<or> e = Stop)"
proof -
  let ?ids = "map fst (srv_connections s)"
  have c: "srv_current_connections s = of_nat (length ?ids)" and d: "distinct ?ids"
    using assms(1) by (simp_all add: counted_def)
  show "counted (exec_event s e)"
  proof (cases e)
    case Listen
    then show ?thesis using assms(1) by (simp add: counted_def listen_def do_accepts_def)
  next
    case Stop
    then show ?thesis using assms(1)
      by (simp add: counted_def stop_def comp_def case_prod_unfold)
  next
    case (Accept_done w res)
    show ?thesis
    proof (cases res)
      case None
      then show ?thesis using Accept_done assms(1)
        by (simp add: counted_def accept_done_def Let_def maybe_idle_fields)
    next
      case (Some a)
      then have "a \<notin> set ?ids" using Accept_done assms(2) by simp
      then show ?thesis using Accept_done Some c d
        unfolding counted_length
        by (simp add: accept_done_def Let_def maybe_idle_fields do_accepts_fields
              connection_ctor_fields del: length_map)
    qed
  next
    case (Process_done a)
    then have a: "a \<in> set ?ids" using assms(2) by simp
    have "length ?ids = Suc (length (removeAll a ?ids))"
      using length_removeAll_distinct[OF d a] by simp
    then have "(of_nat (length ?ids) :: 64 word) - 1 = of_nat (length (removeAll a ?ids))"
      by simp
    then show ?thesis using Process_done c d
      unfolding counted_length
      by (simp add: connection_dtor_fields distinct_removeAll del: length_map)
  qed
  show "map fst (srv_connections (exec_event s e)) =
           live_connections (srv_stopping s) ?ids [e]"
  proof (cases e)
    case Listen
    then show ?thesis by (simp add: listen_def do_accepts_def)
  next
    case Stop
    then show ?thesis by (simp add: stop_def comp_def case_prod_unfold)
  next
    case (Accept_done w res)
    then show ?thesis
      by (cases res)
         (simp_all add: accept_done_def Let_def maybe_idle_fields do_accepts_fields
            connection_ctor_fields)
  next
    case (Process_done a)
    then show ?thesis by (simp add: connection_dtor_fields)
  qed
  show "srv_stopping (exec_event s e) = (srv_stopping s \<or> e = Stop)"
  proof (cases e)
    case Listen
    then show ?thesis by (simp add: listen_def do_accepts_def)
  next
    case Stop
    then show ?thesis by (simp add: stop_def)
  next
    case (Accept_done w res)
    then show ?thesis
      by (cases res)
         (simp_all add: accept_done_def Let_def maybe_idle_fields do_accepts_fields
            connection_ctor_fields)
  next
    case (Process_done a)
    then show ?thesis by (simp add: connection_dtor_fields)
  qed
qed

lemma live_connections_step:
  "live_connections st l (e # es) =
     live_connections (st \<or> e = Stop) (live_connections st l [e]) es"
  by (cases "(st, l, e # es)" rule: live_connections.cases) auto

lemma exec_live:
  "counted s \<Longrightarrow> valid_run s es \<Longrightarrow>
   counted (exec s es) \<and>
   map fst (srv_connections (exec s es)) =
     live_connections (srv_stopping s) (map fst (srv_connections s)) es"
proof (induction es arbitrary: s)
  case Nil
  then show ?case by simp
next
  case (Cons e es)
  from Cons.prems have en: "enabled s e" and v: "valid_run (exec_event s e) es" by simp_all
  note st = exec_event_live[OF Cons.prems(1) en]
  from Cons.IH[OF st(1) v] show ?case
    by (simp add: st(2,3) live_connections_step[of _ _ e es])
qed

lemma counted_new: "counted (http_server_new date rts)"
  by (simp add: counted_def http_server_new_def)

lemma idle_unresolved_step:
  "idle_unresolved s \<Longrightarrow> enabled s e \<Longrightarrow> e \<noteq> Listen \<Longrightarrow> idle_unresolved (exec_event s e)"
  by (cases e) (simp_all add: idle_unresolved_def stop_def)

lemma idle_unresolved_run:
  "idle_unresolved s \<Longrightarrow> valid_run s es \<Longrightarrow> Listen \<notin> set es \<Longrightarrow> idle_unresolved (exec s es)"
proof (induction es arbitrary: s)
  case Nil
  then show ?case by simp
next
  case (Cons e es)
  from Cons.prems have "enabled s e" and "valid_run (exec_event s e) es"
    and "e \<noteq> Listen" and "Listen \<notin> set es"
    by auto
  with Cons.IH[of "exec_event s e"] Cons.prems(1) show ?case
    by (simp add: idle_unresolved_step)
qed

lemma stop_with_pending_accept_resolves:
  "\<not> stopped_resolved (exec (http_server_new date rts) [Listen, Stop]) \<and>
   quiescence (exec (http_server_new date rts) [Listen, Stop, Accept_done 0 None]) \<and>
   stopped_resolved (exec (http_server_new date rts) [Listen, Stop, Accept_done 0 None])"
  by (simp add: http_server_new_def listen_def do_accepts_def stop_def accept_done_def Let_def
        maybe_idle_def stopped_resolved_def quiescence_def abort_accept_def)

section \<open>The closure rule\<close>




text \<open>
  Claim C5, as the code has it. For every parsed request with version \<open>1.0\<close> whose
  \<open>Connection\<close> header is exactly \<open>Keep-Alive\<close>, the reply that \<open>generate_reply\<close>
  hands to the route table carries \<open>Connection: Keep-Alive\<close>, the reply pushed onto the
  queue is the one the route table returns for it, \<open>generate_reply\<close> returns
  \<open>keep_open\<close>, and the pushed reply carries \<open>Connection: Keep-Alive\<close> whenever the
  handler has left that header as it was.
\<close>

theorem C5_keep_alive_1_0:
  assumes "req_headers req ''Connection'' = Some ''Keep-Alive''"
    and "req_version req = ''1.0''"
    and "length (conn_replies c) < replies_max"
  shows "\<exists>resp.
     rep_headers resp ''Connection'' = Some ''Keep-Alive'' \<and>
     generate_reply srv c req =
       (c\<lparr>conn_replies := conn_replies c @
           [Some (rep_done (set_version
              (handle (srv_routes srv) (fst (set_query_param req)) (snd (set_query_param req)) resp)
              (req_version req)))]\<rparr>,
        keep_open) \<and>
     (rep_headers
        (handle (srv_routes srv) (fst (set_query_param req)) (snd (set_query_param req)) resp)
        ''Connection'' = rep_headers resp ''Connection'' \<longrightarrow>
      (\<exists>rep. last (conn_replies (fst (generate_reply srv c req))) = Some rep \<and>
         rep_headers rep ''Connection'' = Some ''Keep-Alive''))"
proof -
  let ?resp = "\<lparr>rep_status = ok, rep_version = ''1.0'',
      rep_headers = [''Connection'' \<mapsto> ''Keep-Alive''], rep_content = '''',
      rep_response_line = ''''\<rparr>"
  have u: "\<not> upgrade_requested req"
    using assms(1) by (simp add: upgrade_requested_def)
  have "generate_reply srv c req =
       (c\<lparr>conn_replies := conn_replies c @
           [Some (rep_done (set_version
              (handle (srv_routes srv) (fst (set_query_param req)) (snd (set_query_param req)) ?resp)
              (req_version req)))]\<rparr>,
        keep_open)"
    using assms
    by (simp add: generate_reply_no_upgrade[OF u] generate_reply_rest_keep_alive_1_0 queue_push_room)
  then show ?thesis
    by (intro exI[of _ ?resp]) (simp add: rep_done_def set_version_def)
qed

text \<open>
  Claim C5 as stated fails: the header is compared with \<open>Keep-Alive\<close> letter for
  letter, so for \<open>Connection: keep-alive\<close> with version \<open>1.0\<close> the result is \<open>close\<close>
  and the reply carries no \<open>Connection\<close> header.
\<close>

theorem C5_counterexample:
  "req_headers (mk_request ''/'' ''1.0'' [(''Connection'', ''keep-alive'')]) ''Connection'' = Some ''keep-alive'' \<and>
   req_version (mk_request ''/'' ''1.0'' [(''Connection'', ''keep-alive'')]) = ''1.0'' \<and>
   snd (generate_reply sample_server connection_new
          (mk_request ''/'' ''1.0'' [(''Connection'', ''keep-alive'')])) = close \<and>
   rep_headers (the (last (conn_replies (fst (generate_reply sample_server connection_new
          (mk_request ''/'' ''1.0'' [(''Connection'', ''keep-alive'')])))))) ''Connection'' = None"
proof -
  let ?r = "mk_request ''/'' ''1.0'' [(''Connection'', ''keep-alive'')]"
  have u: "\<not> upgrade_requested ?r"
    by (simp add: upgrade_requested_def mk_request_def)
  have q: "CHR ''?'' \<notin> set (req_url ?r)" by (simp add: mk_request_def)
  have g: "generate_reply sample_server connection_new ?r =
      generate_reply_rest sample_server connection_new ?r False False"
    using generate_reply_no_upgrade[OF u, of sample_server connection_new]
    by (simp add: mk_request_def)
  show ?thesis
    unfolding g
    by (simp add: generate_reply_rest_def Let_def set_query_param_no_query[OF q] queue_push_def
          replies_max_def connection_new_def sample_server_def http_server_new_def
          sample_routes_def reply_new_def set_version_def rep_done_def)
       (simp add: mk_request_def)
qed

text \<open>
  The sample server's handler leaves the headers as they are: the reply to an HTTP/1.0
  request with \<open>Connection: Keep-Alive\<close> carries the header and the status is
  \<open>keep_open\<close>.
\<close>

theorem C5_witness:
  "req_headers (mk_request ''/'' ''1.0'' [(''Connection'', ''Keep-Alive'')]) ''Connection'' = Some ''Keep-Alive'' \<and>
   req_version (mk_request ''/'' ''1.0'' [(''Connection'', ''Keep-Alive'')]) = ''1.0'' \<and>
   length (conn_replies connection_new) < replies_max \<and>
   snd (generate_reply sample_server connection_new
          (mk_request ''/'' ''1.0'' [(''Connection'', ''Keep-Alive'')])) = keep_open \<and>
   rep_headers (the (last (conn_replies (fst (generate_reply sample_server connection_new
          (mk_request ''/'' ''1.0'' [(''Connection'', ''Keep-Alive'')])))))) ''Connection''
     = Some ''Keep-Alive''"
proof -
  let ?r = "mk_request ''/'' ''1.0'' [(''Connection'', ''Keep-Alive'')]"
  have h: "req_headers ?r ''Connection'' = Some ''Keep-Alive''" "req_version ?r = ''1.0''"
    by (simp_all add: mk_request_def)
  have q: "length (conn_replies connection_new) < replies_max"
    by (simp add: connection_new_def replies_max_def)
  have p: "rep_headers (handle (srv_routes sample_server) u r resp) ''Connection'' =
      rep_headers resp ''Connection''" for u r resp
    by (simp add: sample_server_def http_server_new_def sample_routes_def rep_done_def)
  from C5_keep_alive_1_0[OF h q, of sample_server] p
  obtain rep where "snd (generate_reply sample_server connection_new ?r) = keep_open"
    and "last (conn_replies (fst (generate_reply sample_server connection_new ?r))) = Some rep"
    and "rep_headers rep ''Connection'' = Some ''Keep-Alive''"
    by auto
  then show ?thesis using h q by simp
qed

section \<open>The WebSocket upgrade\<close>

text \<open>
  Claim C2. For every request that has a \<open>Sec-WebSocket-Key\<close> header and whose path (the
  URL up to the first \<open>?\<close>) has a WebSocket handler, \<open>upgrade_websocket\<close>, called with
  room in the reply queue as \<open>read_one\<close> ensures, pushes a reply with status 101
  Switching Protocols and the headers \<open>Upgrade: websocket\<close>, \<open>Connection: Upgrade\<close> and
  \<open>Sec-WebSocket-Accept\<close>, the base64 encoding of the SHA-1 digest of the key followed
  by \<open>258EAFA5-E914-47DA-95CA-C5AB0DC85B11\<close>; it keeps the request in \<open>_req\<close>, sets the
  connection status to \<open>detach\<close> and returns \<open>detach\<close>.
\<close>

theorem C2_upgrade_accepted:
  assumes "req_headers req ''Sec-WebSocket-Key'' = Some key"
    and "get_ws_handler (srv_routes srv) (takeWhile (\<lambda>x. x \<noteq> CHR ''?'') (req_url req)) (conn_req c)
         \<noteq> None"
    and "length (conn_replies c) < replies_max"
  shows "\<exists>resp.
     upgrade_websocket srv c req =
       (c\<lparr>conn_req := Some (snd (set_query_param req)), conn_done := detach,
          conn_replies := conn_replies c @ [Some resp]\<rparr>, detach) \<and>
     rep_status resp = switching_protocols \<and>
     rep_response_line resp = ''HTTP/'' @ req_version req @ '' 101 Switching Protocols'' @ crlf \<and>
     rep_headers resp ''Upgrade'' = Some ''websocket'' \<and>
     rep_headers resp ''Connection'' = Some ''Upgrade'' \<and>
     rep_headers resp ''Sec-WebSocket-Accept'' =
       Some (base64_encode (sha1 (key @ ''258EAFA5-E914-47DA-95CA-C5AB0DC85B11'')))"
proof -
  let ?resp = "\<lparr>rep_status = switching_protocols, rep_version = req_version req,
      rep_headers = [''Upgrade'' \<mapsto> ''websocket'', ''Connection'' \<mapsto> ''Upgrade'',
         ''Sec-WebSocket-Accept'' \<mapsto> generate_websocket_key key],
      rep_content = '''',
      rep_response_line = ''HTTP/'' @ req_version req @ '' 101 Switching Protocols'' @ crlf\<rparr>"
  have "upgrade_websocket srv c req =
      (c\<lparr>conn_req := Some (snd (set_query_param req)), conn_done := detach,
         conn_replies := conn_replies c @ [Some ?resp]\<rparr>, detach)"
    using assms by (simp add: upgrade_websocket_accepted fst_set_query_param queue_push_room)
  then show ?thesis
    by (intro exI[of _ ?resp]) (simp add: generate_websocket_key_def websocket_magic_def)
qed

text \<open>
  An upgrade request for \<open>/managed\<close> on a new connection of the sample server.
\<close>

theorem C2_witness:
  "req_headers (mk_request ''/managed?x=1'' ''1.1''
      [(''Connection'', ''Upgrade''), (''Upgrade'', ''websocket''),
       (''Sec-WebSocket-Key'', ''dGhlIHNhbXBsZSBub25jZQ=='')]) ''Sec-WebSocket-Key''
     = Some ''dGhlIHNhbXBsZSBub25jZQ=='' \<and>
   get_ws_handler (srv_routes sample_server) ''/managed'' (conn_req connection_new) \<noteq> None \<and>
   length (conn_replies connection_new) < replies_max \<and>
   snd (upgrade_websocket sample_server connection_new
     (mk_request ''/managed?x=1'' ''1.1''
        [(''Connection'', ''Upgrade''), (''Upgrade'', ''websocket''),
         (''Sec-WebSocket-Key'', ''dGhlIHNhbXBsZSBub25jZQ=='')])) = detach \<and>
   conn_done (fst (upgrade_websocket sample_server connection_new
     (mk_request ''/managed?x=1'' ''1.1''
        [(''Connection'', ''Upgrade''), (''Upgrade'', ''websocket''),
         (''Sec-WebSocket-Key'', ''dGhlIHNhbXBsZSBub25jZQ=='')]))) = detach \<and>
   conn_req (fst (upgrade_websocket sample_server connection_new
     (mk_request ''/managed?x=1'' ''1.1''
        [(''Connection'', ''Upgrade''), (''Upgrade'', ''websocket''),
         (''Sec-WebSocket-Key'', ''dGhlIHNhbXBsZSBub25jZQ=='')]))) \<noteq> None \<and>
   rep_headers (the (last (conn_replies (fst (upgrade_websocket sample_server connection_new
     (mk_request ''/managed?x=1'' ''1.1''
        [(''Connection'', ''Upgrade''), (''Upgrade'', ''websocket''),
         (''Sec-WebSocket-Key'', ''dGhlIHNhbXBsZSBub25jZQ=='')])))))) ''Sec-WebSocket-Accept''
     = Some ''s3pPLMBiTxaQ9kYGzzhZRbK+xOo=''"
proof -
  let ?r = "mk_request ''/managed?x=1'' ''1.1''
      [(''Connection'', ''Upgrade''), (''Upgrade'', ''websocket''),
       (''Sec-WebSocket-Key'', ''dGhlIHNhbXBsZSBub25jZQ=='')]"
  have k: "req_headers ?r ''Sec-WebSocket-Key'' = Some ''dGhlIHNhbXBsZSBub25jZQ==''"
    by (simp add: mk_request_def)
  have p: "takeWhile (\<lambda>x. x \<noteq> CHR ''?'') (req_url ?r) = ''/managed''"
    by (simp add: mk_request_def)
  have h: "get_ws_handler (srv_routes sample_server) ''/managed'' (conn_req connection_new) \<noteq> None"
    by (simp add: sample_server_def http_server_new_def sample_routes_def)
  have q: "length (conn_replies connection_new) < replies_max"
    by (simp add: connection_new_def replies_max_def)
  have a: "base64_encode (sha1 (''dGhlIHNhbXBsZSBub25jZQ=='' @ ''258EAFA5-E914-47DA-95CA-C5AB0DC85B11''))
      = ''s3pPLMBiTxaQ9kYGzzhZRbK+xOo=''"
    using websocket_key_sample by (simp only: generate_websocket_key_def websocket_magic_def)
  from C2_upgrade_accepted[of ?r _ sample_server connection_new, OF k] h q p
  obtain resp where u: "upgrade_websocket sample_server connection_new ?r =
       (connection_new\<lparr>conn_req := Some (snd (set_query_param ?r)), conn_done := detach,
          conn_replies := conn_replies connection_new @ [Some resp]\<rparr>, detach)"
    and "rep_headers resp ''Sec-WebSocket-Accept'' =
       Some (base64_encode (sha1 (''dGhlIHNhbXBsZSBub25jZQ=='' @ ''258EAFA5-E914-47DA-95CA-C5AB0DC85B11'')))"
    by auto
  then have "rep_headers resp ''Sec-WebSocket-Accept'' = Some ''s3pPLMBiTxaQ9kYGzzhZRbK+xOo=''"
    by (simp only: a)
  then show ?thesis using k h q unfolding u by (simp add: connection_new_def)
qed

text \<open>
  Claim C3. For every upgrade request that is refused, because the \<open>Sec-WebSocket-Key\<close>
  header is absent or no WebSocket handler matches the path, \<open>upgrade_websocket\<close>, called
  with room in the reply queue, pushes a reply with status 400 Bad Request, and the
  connection status is \<open>detach\<close>, not \<open>close\<close>, when it returns.
\<close>

theorem C3_upgrade_refused:
  assumes "req_headers req ''Sec-WebSocket-Key'' = None \<or>
           get_ws_handler (srv_routes srv) (takeWhile (\<lambda>x. x \<noteq> CHR ''?'') (req_url req)) (conn_req c)
             = None"
    and "length (conn_replies c) < replies_max"
  shows "\<exists>resp.
     upgrade_websocket srv c req =
       (c\<lparr>conn_done := detach, conn_replies := conn_replies c @ [Some resp]\<rparr>, detach) \<and>
     rep_status resp = bad_request \<and>
     rep_response_line resp = ''HTTP/'' @ req_version req @ '' 400 Bad Request'' @ crlf \<and>
     conn_done (fst (upgrade_websocket srv c req)) = detach \<and>
     conn_done (fst (upgrade_websocket srv c req)) \<noteq> close"
proof -
  let ?resp = "\<lparr>rep_status = bad_request, rep_version = req_version req,
      rep_headers = Map.empty, rep_content = '''',
      rep_response_line = ''HTTP/'' @ req_version req @ '' 400 Bad Request'' @ crlf\<rparr>"
  have "upgrade_websocket srv c req =
      (c\<lparr>conn_done := detach, conn_replies := conn_replies c @ [Some ?resp]\<rparr>, detach)"
    using assms by (simp add: upgrade_websocket_refused fst_set_query_param queue_push_room)
  then show ?thesis
    by (intro exI[of _ ?resp]) simp
qed

text \<open>
  An upgrade request without the key on a new connection of the sample server.
\<close>

theorem C3_witness:
  "req_headers (mk_request ''/managed'' ''1.1'' [(''Connection'', ''Upgrade''), (''Upgrade'', ''websocket'')])
     ''Sec-WebSocket-Key'' = None \<and>
   length (conn_replies connection_new) < replies_max \<and>
   conn_done (fst (upgrade_websocket sample_server connection_new
     (mk_request ''/managed'' ''1.1'' [(''Connection'', ''Upgrade''), (''Upgrade'', ''websocket'')]))) = detach \<and>
   length (conn_replies (fst (upgrade_websocket sample_server connection_new
     (mk_request ''/managed'' ''1.1'' [(''Connection'', ''Upgrade''), (''Upgrade'', ''websocket'')])))) = 1"
proof -
  let ?r = "mk_request ''/managed'' ''1.1'' [(''Connection'', ''Upgrade''), (''Upgrade'', ''websocket'')]"
  have k: "req_headers ?r ''Sec-WebSocket-Key'' = None"
    by (simp add: mk_request_def)
  have q: "length (conn_replies connection_new) < replies_max"
    by (simp add: connection_new_def replies_max_def)
  from C3_upgrade_refused[of ?r sample_server connection_new] k q
  obtain resp where "upgrade_websocket sample_server connection_new ?r =
       (connection_new\<lparr>conn_done := detach,
          conn_replies := conn_replies connection_new @ [Some resp]\<rparr>, detach)"
    by auto
  then show ?thesis using k q by (simp add: connection_new_def)
qed

text \<open>
  Claim C4 says that \<open>_req\<close> is non-null whenever \<open>process()\<close> reaches its join
  continuation with the status \<open>detach\<close>. On the refused path it is not: on a new
  connection, an upgrade request without the \<open>Sec-WebSocket-Key\<close> header leaves the
  status \<open>detach\<close> and \<open>_req\<close> null, and the join continuation dereferences it.
\<close>

theorem C4_refused_upgrade_null_request:
  "(let (srv1, c1) =
      read_one sample_server connection_new
        (Parsed (mk_request ''/managed'' ''1.1''
           [(''Connection'', ''Upgrade''), (''Upgrade'', ''websocket'')]))
    in conn_done c1 = detach \<and> conn_req c1 = None \<and> process_join c1 = Inl Null_dereference)"
proof -
  let ?r = "mk_request ''/managed'' ''1.1'' [(''Connection'', ''Upgrade''), (''Upgrade'', ''websocket'')]"
  have u: "upgrade_requested ?r"
    by (simp add: upgrade_requested_def mk_request_def iequals_def c_str_def)
  have k: "req_headers ?r ''Sec-WebSocket-Key'' = None"
    by (simp add: mk_request_def)
  have l: "length v < 2 ^ 32" if "req_headers ?r ''Connection'' = Some v" for v
    using that by (auto simp: mk_request_def)
  show ?thesis
    by (simp add: read_one_def Let_def generate_reply_upgrade[OF u l] upgrade_websocket_refused k
          process_join_def connection_new_def)
qed

section \<open>The responder\<close>

text \<open>
  Claim C6. Before it writes a reply, \<open>start_response\<close> sets the reply's headers
  \<open>Server\<close> to \<open>Seastar httpd\<close>, \<open>Date\<close> to the server's cached date string and
  \<open>Content-Length\<close> to the decimal length of the body, whatever values the table held
  for them before; what it writes is the response line, one line per entry of the table
  so updated, an empty line and the body.
\<close>

theorem C6_mandatory_headers:
  assumes "conn_resp c = Some resp"
  shows "(let h = (rep_headers resp)
            (''Server'' \<mapsto> ''Seastar httpd'', ''Date'' \<mapsto> srv_date srv,
             ''Content-Length'' \<mapsto> to_sstring (length (rep_content resp)))
     in start_response srv order c =
          Inr (c\<lparr>conn_write_buf :=
                   conn_write_buf c @ rep_response_line resp @
                   concat (map (\<lambda>(k, v). k @ '': '' @ v @ crlf) (header_entries h order)) @
                   crlf @ rep_content resp,
                 conn_resp := None\<rparr>) \<and>
        h ''Server'' = Some ''Seastar httpd'' \<and>
        h ''Date'' = Some (srv_date srv) \<and>
        h ''Content-Length'' = Some (to_sstring (length (rep_content resp))))"
  using assms by (simp add: start_response_def Let_def write_reply_headers_concat)

text \<open>
  A reply with the body \<open>hello\<close> whose handler had set \<open>Content-Length: 99\<close>.
\<close>

theorem C6_witness:
  "conn_resp (connection_new\<lparr>conn_resp := Some ((rep_done reply_new)
      \<lparr>rep_content := ''hello'', rep_headers := [''Content-Length'' \<mapsto> ''99'']\<rparr>)\<rparr>) \<noteq> None \<and>
   start_response sample_server [''Content-Length'', ''Date'', ''Server'']
     (connection_new\<lparr>conn_resp := Some ((rep_done reply_new)
        \<lparr>rep_content := ''hello'', rep_headers := [''Content-Length'' \<mapsto> ''99'']\<rparr>)\<rparr>)
   = Inr (connection_new\<lparr>conn_write_buf :=
       ''HTTP/ 200 OK'' @ crlf @ ''Content-Length: 5'' @ crlf @
       ''Date: 01 Jan 2017 00:00:00 GMT'' @ crlf @ ''Server: Seastar httpd'' @ crlf @ crlf @
       ''hello''\<rparr>)"
proof -
  let ?resp = "(rep_done reply_new)\<lparr>rep_content := ''hello'', rep_headers := [''Content-Length'' \<mapsto> ''99'']\<rparr>"
  let ?c = "connection_new\<lparr>conn_resp := Some ?resp\<rparr>"
  have r: "conn_resp ?c = Some ?resp" by simp
  have t: "to_sstring (length (rep_content ?resp)) = ''5''"
    by (simp add: to_sstring.simps char_eval)
  have e: "start_response sample_server [''Content-Length'', ''Date'', ''Server''] ?c =
      Inr (?c\<lparr>conn_write_buf :=
           conn_write_buf ?c @ rep_response_line ?resp @
           concat (map (\<lambda>(k, v). k @ '': '' @ v @ crlf)
             (header_entries ((rep_headers ?resp)
                (''Server'' \<mapsto> ''Seastar httpd'', ''Date'' \<mapsto> srv_date sample_server,
                 ''Content-Length'' \<mapsto> to_sstring (length (rep_content ?resp))))
                [''Content-Length'', ''Date'', ''Server''])) @
           crlf @ rep_content ?resp,
         conn_resp := None\<rparr>)"
    using C6_mandatory_headers[OF r, of sample_server "[''Content-Length'', ''Date'', ''Server'']"]
    unfolding Let_def by (rule conjunct1)
  show ?thesis
    unfolding e t
    by (simp add: header_entries_def List.map_filter_simps sample_server_def
          http_server_new_def rep_done_def reply_new_def response_line_def connection_new_def)
qed

section \<open>URL decoding and query parameters\<close>

text \<open>
  Claim C7, as the code has it. \<open>url_decode\<close> maps \<open>%HH\<close> with two hexadecimal digits
  of either case to the byte with that value, \<open>+\<close> to a space, and any other character
  to itself. It does not look at what the two characters after a \<open>%\<close> are: a \<open>%\<close> with
  two characters after it is never the reason for a failure. It fails when it comes to a
  \<open>%\<close> with fewer than two characters after it, and a parameter whose key or value
  fails to decode is dropped: \<open>add_param\<close> leaves the request as it was.
\<close>

theorem C7_url_decode:
  "(hex_digit_value a = Some x \<and> hex_digit_value b = Some y \<longrightarrow>
      url_decode (CHR ''%'' # a # b # s) = map_option ((#) (char_of (16 * x + y))) (url_decode s))
   \<and> url_decode (CHR ''+'' # s) = map_option ((#) CHR '' '') (url_decode s)
   \<and> (c \<noteq> CHR ''%'' \<and> c \<noteq> CHR ''+'' \<longrightarrow> url_decode (c # s) = map_option ((#) c) (url_decode s))
   \<and> (url_decode (CHR ''%'' # a # b # s) = None \<longleftrightarrow> url_decode s = None)
   \<and> (url_decode p \<noteq> None \<and> length t < 2 \<longrightarrow> url_decode (p @ CHR ''%'' # t) = None)
   \<and> (CHR ''='' \<notin> set tok \<and> url_decode tok = None \<longrightarrow> add_param req tok = req)
   \<and> (CHR ''='' \<notin> set key \<and> (url_decode key = None \<or> url_decode val = None) \<longrightarrow>
        add_param req (key @ CHR ''='' # val) = req)"
proof (intro conjI impI)
  assume "hex_digit_value a = Some x \<and> hex_digit_value b = Some y"
  then show "url_decode (CHR ''%'' # a # b # s) = map_option ((#) (char_of (16 * x + y))) (url_decode s)"
    by (simp add: url_decode_percent hex_to_byte_digit char_of_hex)
next
  show "url_decode (CHR ''+'' # s) = map_option ((#) CHR '' '') (url_decode s)"
    by (rule url_decode_plus)
next
  assume "c \<noteq> CHR ''%'' \<and> c \<noteq> CHR ''+''"
  then show "url_decode (c # s) = map_option ((#) c) (url_decode s)"
    by (simp add: url_decode_other)
next
  show "url_decode (CHR ''%'' # a # b # s) = None \<longleftrightarrow> url_decode s = None"
    by (simp add: url_decode_percent)
next
  assume "url_decode p \<noteq> None \<and> length t < 2"
  then show "url_decode (p @ CHR ''%'' # t) = None"
    by (auto simp: url_decode_append_percent)
next
  assume "CHR ''='' \<notin> set tok \<and> url_decode tok = None"
  then show "add_param req tok = req"
    by (simp add: add_param_no_eq)
next
  assume "CHR ''='' \<notin> set key \<and> (url_decode key = None \<or> url_decode val = None)"
  then show "add_param req (key @ CHR ''='' # val) = req"
    by (auto simp: add_param_eq split: option.splits)
qed

text \<open>
  Claim C7 as stated fails: \<open>%zz\<close> is not a valid escape, yet the parameter \<open>a=%zz\<close> is
  stored, with the value \<open>S\<close>.
\<close>

theorem C7_counterexample:
  "hex_digit_value (CHR ''z'') = None \<and>
   req_query_parameters (snd (set_query_param (mk_request ''/?a=%zz'' ''1.1'' []))) ''a'' = Some ''S''"
proof -
  have "url_decode ''%zz'' = Some ''S''"
    by (simp add: url_decode_percent url_decode_Nil hex_to_byte_def char_val_def char_eval)
  moreover have "url_decode ''a'' = Some ''a''"
    by (simp add: url_decode_other url_decode_Nil)
  ultimately have "add_param r (''a'' @ CHR ''='' # ''%zz'') =
      r\<lparr>req_query_parameters := (req_query_parameters r)(''a'' \<mapsto> ''S'')\<rparr>" for r
    using add_param_eq[of "''a''" r "''%zz''"] by simp
  then show ?thesis
    by (simp add: set_query_param_query mk_request_def hex_digit_value_def)
qed

text \<open>
  Decoding \<open>%4F+x\<close>, and three tokens with a \<open>%\<close> that has fewer than two characters
  after it.
\<close>

theorem C7_witness:
  "hex_digit_value (CHR ''4'') = Some 4 \<and> hex_digit_value (CHR ''F'') = Some 15 \<and>
   url_decode ''%4F+x'' = Some ''O x'' \<and>
   url_decode ''x'' \<noteq> None \<and> url_decode ''x%4'' = None \<and>
   url_decode ''%'' = None \<and>
   add_param (mk_request ''/?%'' ''1.1'' []) ''%'' = mk_request ''/?%'' ''1.1'' [] \<and>
   add_param (mk_request ''/?k=x%4'' ''1.1'' []) ''k=x%4'' = mk_request ''/?k=x%4'' ''1.1'' []"
proof -
  have h: "hex_digit_value (CHR ''4'') = Some 4" "hex_digit_value (CHR ''F'') = Some 15"
    by (simp_all add: hex_digit_value_def)
  have x: "url_decode ''x'' = Some ''x''"
    using C7_url_decode[where s = "[]" and c = "CHR ''x''"] by (simp add: url_decode_Nil)
  have px: "url_decode ''+x'' = Some '' x''"
    using C7_url_decode[where s = "''x''"] x by simp
  have a: "url_decode ''%4F+x'' = Some ''O x''"
    using C7_url_decode[where a = "CHR ''4''" and x = 4 and b = "CHR ''F''" and y = 15
        and s = "''+x''"] h px
    by (simp add: char_eval)
  have b: "url_decode ''x%4'' = None"
    using C7_url_decode[where p = "''x''" and t = "''4''"] x by simp
  have c: "url_decode ''%'' = None"
    using C7_url_decode[where p = "[]" and t = "[]"] by (simp add: url_decode_Nil)
  have d: "add_param (mk_request ''/?%'' ''1.1'' []) ''%'' = mk_request ''/?%'' ''1.1'' []"
    using C7_url_decode[where tok = "''%''" and req = "mk_request ''/?%'' ''1.1'' []"] c by simp
  have e: "add_param (mk_request ''/?k=x%4'' ''1.1'' []) ''k=x%4'' = mk_request ''/?k=x%4'' ''1.1'' []"
    using C7_url_decode[where req = "mk_request ''/?k=x%4'' ''1.1'' []" and key = "''k''"
        and val = "''x%4''"] b
    by simp
  show ?thesis using h a x b c d e by simp
qed

text \<open>
  Claim C8. A token without \<open>=\<close> whose decoding is \<open>k\<close> is stored as \<open>k\<close> with the
  empty string; a token \<open>key=value\<close> whose parts decode to \<open>k\<close> and \<open>v\<close> is stored as
  \<open>k\<close> with \<open>v\<close>. The decoding is that of the specification: \<open>%HH\<close> is the byte with
  the hexadecimal value \<open>HH\<close>, \<open>+\<close> is a space. \<open>set_query_param\<close> does this for each
  token of the query string, the part of the URL after the first \<open>?\<close>, split at every
  \<open>&\<close>, in order, and changes nothing when the URL has no \<open>?\<close>.
\<close>

theorem C8_query_param_tokens:
  "(CHR ''='' \<notin> set tok \<and> url_decode_spec tok = Some k \<longrightarrow>
      add_param req tok = req\<lparr>req_query_parameters := (req_query_parameters req)(k \<mapsto> '''')\<rparr>)
   \<and> (CHR ''='' \<notin> set key \<and> url_decode_spec key = Some k \<and> url_decode_spec val = Some v \<longrightarrow>
        add_param req (key @ CHR ''='' # val) =
          req\<lparr>req_query_parameters := (req_query_parameters req)(k \<mapsto> v)\<rparr>)
   \<and> (CHR ''?'' \<in> set (req_url req) \<longrightarrow>
        snd (set_query_param req) =
          fold (\<lambda>tok r. add_param r tok)
            (split_on (CHR ''&'') (tl (dropWhile (\<lambda>x. x \<noteq> CHR ''?'') (req_url req)))) req)
   \<and> (CHR ''?'' \<notin> set (req_url req) \<longrightarrow> snd (set_query_param req) = req)"
  by (auto simp: add_param_no_eq add_param_eq set_query_param_query set_query_param_no_query
        url_decode_spec_refines)

text \<open>
  The query string \<open>a+b&c=%41&d=x%2fy\<close>: the key \<open>a b\<close> with the empty string, \<open>c\<close>
  with \<open>A\<close>, \<open>d\<close> with \<open>x/y\<close>; and a URL without a query string.
\<close>

theorem C8_witness:
  "url_decode_spec ''a+b'' = Some ''a b'' \<and> url_decode_spec ''%41'' = Some ''A'' \<and>
   url_decode_spec ''x%2fy'' = Some ''x/y'' \<and>
   req_query_parameters (snd (set_query_param (mk_request ''/x?a+b&c=%41&d=x%2fy'' ''1.1'' [])))
     ''a b'' = Some '''' \<and>
   req_query_parameters (snd (set_query_param (mk_request ''/x?a+b&c=%41&d=x%2fy'' ''1.1'' [])))
     ''c'' = Some ''A'' \<and>
   req_query_parameters (snd (set_query_param (mk_request ''/x?a+b&c=%41&d=x%2fy'' ''1.1'' [])))
     ''d'' = Some ''x/y'' \<and>
   req_query_parameters (snd (set_query_param (mk_request ''/x?a+b&c=%41&d=x%2fy'' ''1.1'' [])))
     ''a+b'' = None \<and>
   snd (set_query_param (mk_request ''/x'' ''1.1'' [])) = mk_request ''/x'' ''1.1'' []"
proof -
  let ?r = "mk_request ''/x?a+b&c=%41&d=x%2fy'' ''1.1'' []"
  have dab: "url_decode_spec ''a+b'' = Some ''a b''"
    and dc: "url_decode_spec ''c'' = Some ''c''"
    and d41: "url_decode_spec ''%41'' = Some ''A''"
    and dd: "url_decode_spec ''d'' = Some ''d''"
    and dx: "url_decode_spec ''x%2fy'' = Some ''x/y''"
    by (simp_all add: hex_digit_value_def char_eval)
  have q: "CHR ''?'' \<in> set (req_url ?r)" by (simp add: mk_request_def)
  have toks: "split_on (CHR ''&'') (tl (dropWhile (\<lambda>x. x \<noteq> CHR ''?'') (req_url ?r))) =
      [''a+b'', ''c=%41'', ''d=x%2fy'']"
    by (simp add: mk_request_def)
  have t1: "add_param r ''a+b'' =
      r\<lparr>req_query_parameters := (req_query_parameters r)(''a b'' \<mapsto> '''')\<rparr>" for r
    using C8_query_param_tokens[where tok = "''a+b''" and k = "''a b''" and req = r] dab by simp
  have t2: "add_param r ''c=%41'' =
      r\<lparr>req_query_parameters := (req_query_parameters r)(''c'' \<mapsto> ''A'')\<rparr>" for r
    using C8_query_param_tokens[where req = r and key = "''c''" and k = "''c''" and val = "''%41''"
        and v = "''A''"] dc d41 by simp
  have t3: "add_param r ''d=x%2fy'' =
      r\<lparr>req_query_parameters := (req_query_parameters r)(''d'' \<mapsto> ''x/y'')\<rparr>" for r
    using C8_query_param_tokens[where req = r and key = "''d''" and k = "''d''" and val = "''x%2fy''"
        and v = "''x/y''"] dd dx by simp
  have f: "snd (set_query_param ?r) =
      fold (\<lambda>tok r. add_param r tok) [''a+b'', ''c=%41'', ''d=x%2fy''] ?r"
    using C8_query_param_tokens[where req = ?r] q toks by simp
  have n: "snd (set_query_param (mk_request ''/x'' ''1.1'' [])) = mk_request ''/x'' ''1.1'' []"
    using C8_query_param_tokens[where req = "mk_request ''/x'' ''1.1'' []"]
    by (simp add: mk_request_def)
  have e: "req_query_parameters ?r = Map.empty" by (simp add: mk_request_def)
  show ?thesis
    unfolding f using dab d41 dx n by (simp add: t1 t2 t3 e)
qed

section \<open>Stopping the server\<close>

text \<open>
  Claim C9 says that the future returned by \<open>stop()\<close> resolves exactly when quiescence
  first holds. \<open>stop()\<close> does not call \<open>maybe_idle\<close>: on a server that has no accept
  in flight and no connection, quiescence holds as soon as \<open>stop()\<close> has set the flag,
  the promise is not given its value, and no continuation is left that would give it
  one. In every run from there without a call of \<open>listen\<close> the future stays unresolved.
\<close>

theorem C9_stop_when_idle_unresolved:
  assumes "valid_run (stop (http_server_new date rts)) es" and "Listen \<notin> set es"
  shows "quiescence (stop (http_server_new date rts)) \<and>
         \<not> stopped_resolved (stop (http_server_new date rts)) \<and>
         quiescence (exec (stop (http_server_new date rts)) es) \<and>
         \<not> stopped_resolved (exec (stop (http_server_new date rts)) es)"
proof -
  have i: "idle_unresolved (stop (http_server_new date rts))"
    by (simp add: idle_unresolved_def stop_def http_server_new_def)
  have q: "quiescence s \<and> \<not> stopped_resolved s" if "idle_unresolved s" for s
    using that by (simp add: idle_unresolved_def quiescence_def stopped_resolved_def)
  from q[OF i] q[OF idle_unresolved_run[OF i assms]] show ?thesis by simp
qed

text \<open>
  A second call of \<open>stop()\<close> on the idle server.
\<close>

theorem C9_witness:
  "valid_run (stop (http_server_new ''d'' sample_routes)) [Stop] \<and> Listen \<notin> set [Stop] \<and>
   quiescence (exec (stop (http_server_new ''d'' sample_routes)) [Stop]) \<and>
   \<not> stopped_resolved (exec (stop (http_server_new ''d'' sample_routes)) [Stop])"
proof -
  have v: "valid_run (stop (http_server_new ''d'' sample_routes)) [Stop]" by simp
  have l: "Listen \<notin> set [Stop]" by simp
  from C9_stop_when_idle_unresolved[OF v l] show ?thesis using v l by blast
qed

section \<open>The connection counter\<close>

text \<open>
  Claim C10. After every run of a new server, \<open>current_connections\<close> is the number of
  live connection objects, those constructed and not yet destroyed, and \<open>_connections\<close>
  lists exactly these; the constructor adds one to the counter and appends the
  connection to the list, the destructor takes one from the counter and removes the
  connection from the list.
\<close>

theorem C10_current_connections:
  assumes "valid_run (http_server_new date rts) es"
  shows "srv_current_connections (exec (http_server_new date rts) es) =
           of_nat (length (live_connections False [] es)) \<and>
         map fst (srv_connections (exec (http_server_new date rts) es)) =
           live_connections False [] es \<and>
         distinct (live_connections False [] es) \<and>
         (length (live_connections False [] es) < 2 ^ 64 \<longrightarrow>
            unat (srv_current_connections (exec (http_server_new date rts) es)) =
              length (live_connections False [] es)) \<and>
         srv_current_connections (connection_ctor s a) = srv_current_connections s + 1 \<and>
         map fst (srv_connections (connection_ctor s a)) = map fst (srv_connections s) @ [a] \<and>
         srv_current_connections (connection_dtor s a) = srv_current_connections s - 1 \<and>
         map fst (srv_connections (connection_dtor s a)) =
           removeAll a (map fst (srv_connections s))"
proof -
  let ?s = "exec (http_server_new date rts) es"
  have "counted ?s \<and> map fst (srv_connections ?s) = live_connections False [] es"
    using exec_live[OF counted_new assms] by (simp add: http_server_new_def)
  then have l: "map fst (srv_connections ?s) = live_connections False [] es"
    and c: "srv_current_connections ?s = of_nat (length (live_connections False [] es))"
    and d: "distinct (live_connections False [] es)"
    by (auto simp: counted_length simp del: length_map)
  have u: "unat (srv_current_connections ?s) = length (live_connections False [] es)"
    if "length (live_connections False [] es) < 2 ^ 64"
    using that unfolding c by (simp add: unat_of_nat)
  show ?thesis
    using l c d u by (simp add: connection_ctor_fields connection_dtor_fields)
qed

text \<open>
  Two connections accepted, one of them finished.
\<close>

theorem C10_witness:
  "valid_run (http_server_new ''d'' sample_routes)
     [Listen, Accept_done 0 (Some 5), Accept_done 0 (Some 6), Process_done 5] \<and>
   srv_current_connections (exec (http_server_new ''d'' sample_routes)
     [Listen, Accept_done 0 (Some 5), Accept_done 0 (Some 6), Process_done 5]) = 1 \<and>
   map fst (srv_connections (exec (http_server_new ''d'' sample_routes)
     [Listen, Accept_done 0 (Some 5), Accept_done 0 (Some 6), Process_done 5])) = [6] \<and>
   length (live_connections False []
     [Listen, Accept_done 0 (Some 5), Accept_done 0 (Some 6), Process_done 5]) < 2 ^ 64 \<and>
   unat (srv_current_connections (exec (http_server_new ''d'' sample_routes)
     [Listen, Accept_done 0 (Some 5), Accept_done 0 (Some 6), Process_done 5])) = 1"
proof -
  have v: "valid_run (http_server_new ''d'' sample_routes)
     [Listen, Accept_done 0 (Some 5), Accept_done 0 (Some 6), Process_done 5]"
    by (simp add: http_server_new_def listen_def do_accepts_def accept_done_def Let_def
          connection_ctor_def)
  have l: "live_connections False [] [Listen, Accept_done 0 (Some 5), Accept_done 0 (Some 6), Process_done 5] = [6]"
    by simp
  from C10_current_connections[OF v, of sample_server 0]
  have e1: "srv_current_connections (exec (http_server_new ''d'' sample_routes)
      [Listen, Accept_done 0 (Some 5), Accept_done 0 (Some 6), Process_done 5]) =
      of_nat (length (live_connections False []
        [Listen, Accept_done 0 (Some 5), Accept_done 0 (Some 6), Process_done 5]))"
    and e2: "map fst (srv_connections (exec (http_server_new ''d'' sample_routes)
      [Listen, Accept_done 0 (Some 5), Accept_done 0 (Some 6), Process_done 5])) =
      live_connections False []
        [Listen, Accept_done 0 (Some 5), Accept_done 0 (Some 6), Process_done 5]"
    and e3: "length (live_connections False []
        [Listen, Accept_done 0 (Some 5), Accept_done 0 (Some 6), Process_done 5]) < 2 ^ 64 \<longrightarrow>
      unat (srv_current_connections (exec (http_server_new ''d'' sample_routes)
        [Listen, Accept_done 0 (Some 5), Accept_done 0 (Some 6), Process_done 5])) =
      length (live_connections False []
        [Listen, Accept_done 0 (Some 5), Accept_done 0 (Some 6), Process_done 5])"
    by blast+
  have e4: "unat (srv_current_connections (exec (http_server_new ''d'' sample_routes)
        [Listen, Accept_done 0 (Some 5), Accept_done 0 (Some 6), Process_done 5])) = 1"
    using e3 unfolding l by simp
  show ?thesis
    using v e4 unfolding e1 e2 l by simp
qed

end
